theory Spec2Isabelle
  imports Main "HOL-Library.Sublist"
begin

section \<open>Documents\<close>

text \<open>
  Event payloads, category parameters and request bodies are JSON documents handled as
  untyped JavaScript values (\<^verbatim>\<open>any\<close>). An object holds each key once, as
  \<^verbatim>\<open>JSON.parse\<close> produces it; \<^verbatim>\<open>undefined\<close> is the \<open>None\<close> of \<open>json option\<close>.
  Numbers are integers here: the code modelled below only tests them for truthiness and
  for equality.
\<close>

datatype json =
    JNull
  | JBool bool
  | JNum int
  | JStr string
  | JArr "json list"
  | JObj "(string \<times> json) list"

section \<open>The durable queue\<close>

text \<open>
  A row of \<^verbatim>\<open>public.webhook_queue\<close>. Timestamps are integers (microseconds);
  the nullable columns are options. \<^verbatim>\<open>processing_attempts\<close> is a 32-bit
  \<^verbatim>\<open>INT\<close>: the claim only increments a counter that is strictly below the 32-bit
  parameter \<^verbatim>\<open>max_attempts\<close>, so the increment never leaves the range and \<open>int\<close>
  computes the same value.
\<close>

record queue_item =
  wq_id :: int
  wq_job_id :: string
  wq_received_at :: int
  wq_payload :: json
  wq_status :: string
  wq_processing_attempts :: int
  wq_last_attempt :: "int option"
  wq_error_message :: "string option"

text \<open>
  \<^verbatim>\<open>WHERE status = 'pending' AND processing_attempts < max_attempts\<close>
\<close>

definition claimable :: "int \<Rightarrow> queue_item \<Rightarrow> bool" where
  "claimable max_attempts r \<longleftrightarrow>
     wq_status r = ''pending'' \<and> wq_processing_attempts r < max_attempts"

text \<open>
  \<^verbatim>\<open>SELECT id INTO locked_item_id ... ORDER BY received_at ASC LIMIT 1 FOR UPDATE SKIP LOCKED\<close>:
  the rows locked by other transactions (\<open>locked\<close>) are skipped, the remaining candidates
  are ordered by \<^verbatim>\<open>received_at\<close> and the first one is taken. The sort is stable, so
  among rows received at the same instant the model takes the first in table order, where
  the database may take any. \<open>None\<close> is \<^verbatim>\<open>locked_item_id IS NULL\<close>.
\<close>

definition select_for_update_skip_locked ::
    "int set \<Rightarrow> int \<Rightarrow> queue_item list \<Rightarrow> int option" where
  "select_for_update_skip_locked locked max_attempts tbl =
     (case sort_key wq_received_at
             (filter (\<lambda>r. claimable max_attempts r \<and> wq_id r \<notin> locked) tbl) of
        [] \<Rightarrow> None
      | r # _ \<Rightarrow> Some (wq_id r))"

text \<open>
  \<^verbatim>\<open>SET status = 'processing', processing_attempts = processing_attempts + 1, last_attempt = NOW()\<close>
\<close>

definition set_processing :: "int \<Rightarrow> queue_item \<Rightarrow> queue_item" where
  "set_processing now r =
     r\<lparr>wq_status := ''processing'',
       wq_processing_attempts := wq_processing_attempts r + 1,
       wq_last_attempt := Some now\<rparr>"

text \<open>
  \<^verbatim>\<open>RETURN QUERY UPDATE public.webhook_queue SET ... WHERE id = locked_item_id RETURNING *\<close>:
  the rows returned and the table after the update.
\<close>

definition update_returning ::
    "int \<Rightarrow> int \<Rightarrow> queue_item list \<Rightarrow> queue_item list \<times> queue_item list" where
  "update_returning now locked_item_id tbl =
     (let tbl' = map (\<lambda>r. if wq_id r = locked_item_id then set_processing now r else r) tbl
      in (filter (\<lambda>r. wq_id r = locked_item_id) tbl', tbl'))"

text \<open>
  \<^verbatim>\<open>lock_and_get_queue_item(max_attempts)\<close> run alone, with no other transaction
  holding a row lock; \<open>now\<close> is the transaction's \<^verbatim>\<open>NOW()\<close>.
\<close>

definition lock_and_get_queue_item ::
    "int \<Rightarrow> int \<Rightarrow> queue_item list \<Rightarrow> queue_item list \<times> queue_item list" where
  "lock_and_get_queue_item max_attempts now tbl =
     (case select_for_update_skip_locked {} max_attempts tbl of
        None \<Rightarrow> ([], tbl)
      | Some locked_item_id \<Rightarrow> update_returning now locked_item_id tbl)"

text \<open>
  The worker polls with the same \<^verbatim>\<open>MAX_PROCESSING_ATTEMPTS\<close> on every tick: a
  sequence of claim calls at the given times, each on the table the previous one left.
\<close>

fun repeated_claims ::
    "int \<Rightarrow> int list \<Rightarrow> queue_item list \<Rightarrow> queue_item list list \<times> queue_item list" where
  "repeated_claims max_attempts [] tbl = ([], tbl)"
| "repeated_claims max_attempts (now # nows) tbl =
     (let (rows, tbl') = lock_and_get_queue_item max_attempts now tbl;
          (rest, tbl'') = repeated_claims max_attempts nows tbl'
      in (rows # rest, tbl''))"

section \<open>JavaScript values\<close>

text \<open>Truthiness of a value, and of a possibly \<^verbatim>\<open>undefined\<close> one.\<close>

fun truthy :: "json \<Rightarrow> bool" where
  "truthy JNull = False"
| "truthy (JBool b) = b"
| "truthy (JNum n) = (n \<noteq> 0)"
| "truthy (JStr s) = (s \<noteq> [])"
| "truthy (JArr _) = True"
| "truthy (JObj _) = True"

fun truthy_opt :: "json option \<Rightarrow> bool" where
  "truthy_opt None = False"
| "truthy_opt (Some v) = truthy v"

text \<open>
  \<^verbatim>\<open>v?.k\<close>: the property of an object, \<^verbatim>\<open>undefined\<close> on \<^verbatim>\<open>null\<close> and on every
  other value (none of the property names read below exists on a string, number, boolean or
  array). The plain read \<^verbatim>\<open>v.k\<close> differs on \<^verbatim>\<open>null\<close> only, where it throws; the
  callers below test for that first.
\<close>

fun get :: "string \<Rightarrow> json \<Rightarrow> json option" where
  "get k (JObj kvs) = map_of kvs k"
| "get k _ = None"

fun get_opt :: "string \<Rightarrow> json option \<Rightarrow> json option" where
  "get_opt k None = None"
| "get_opt k (Some v) = get k v"

fun is_primitive :: "json \<Rightarrow> bool" where
  "is_primitive (JArr _) = False"
| "is_primitive (JObj _) = False"
| "is_primitive _ = True"

text \<open>
  A \<^verbatim>\<open>Set\<close> in insertion order. Strings, numbers and booleans are compared by value;
  objects and arrays by reference. Every object added below is read from a different
  place of the payload, so it is a new reference and is always appended, and no object of
  another document is ever found in the set.
\<close>

definition set_add :: "json list \<Rightarrow> json \<Rightarrow> json list" where
  "set_add accounts v = (if is_primitive v \<and> v \<in> set accounts then accounts else accounts @ [v])"

definition set_has :: "json list \<Rightarrow> json \<Rightarrow> bool" where
  "set_has accounts v \<longleftrightarrow> is_primitive v \<and> v \<in> set accounts"

text \<open>\<^verbatim>\<open>if (x) accounts.add(x)\<close>\<close>

definition add_truthy :: "json option \<Rightarrow> json list \<Rightarrow> json list" where
  "add_truthy x accounts =
     (case x of None \<Rightarrow> accounts
      | Some v \<Rightarrow> if truthy v then set_add accounts v else accounts)"

text \<open>
  \<^verbatim>\<open>s.includes(sub)\<close> and \<^verbatim>\<open>s.trim()\<close> on strings. The white space of
  \<^verbatim>\<open>trim\<close> is given for one-byte characters: tab, line feed, vertical tab, form feed,
  carriage return, space and no-break space.
\<close>

fun str_includes :: "string \<Rightarrow> string \<Rightarrow> bool" where
  "str_includes [] sub = (sub = [])"
| "str_includes (c # cs) sub = (prefix sub (c # cs) \<or> str_includes cs sub)"

definition is_space :: "char \<Rightarrow> bool" where
  "is_space c \<longleftrightarrow> of_char c \<in> {9, 10, 11, 12, 13, 32, 160 :: nat}"

definition trim :: "string \<Rightarrow> string" where
  "trim s = rev (dropWhile is_space (rev (dropWhile is_space s)))"

section \<open>The platform tables\<close>

text \<open>
  Rows of \<^verbatim>\<open>public.indexing_jobs\<close> and \<^verbatim>\<open>public.db_credentials\<close>. The
  identifiers (\<^verbatim>\<open>uuid\<close>) are strings; \<^verbatim>\<open>category_params\<close> is a \<^verbatim>\<open>jsonb\<close>
  document, \<open>JNull\<close> when the column is null.
\<close>

record job =
  job_id :: string
  job_user_id :: string
  job_credential_id :: string
  job_data_category :: string
  job_category_params :: json
  job_target_table_name :: string
  job_status :: string
  job_error_message :: "string option"

record credential =
  cred_id :: string
  cred_user_id :: string
  cred_host :: string
  cred_port :: int
  cred_db_name :: string
  cred_username :: string
  cred_encrypted_password :: string
  cred_ssl_mode :: "string option"

section \<open>The webhook receiver\<close>

text \<open>
  \<^verbatim>\<open>getAccountsFromPayload\<close>. The body of its \<^verbatim>\<open>try\<close> is a sequence of
  statements over the set \<^verbatim>\<open>accounts\<close>; a statement either completes (\<open>Inr\<close>) or throws
  a \<^verbatim>\<open>TypeError\<close> (\<open>Inl\<close>), and the \<^verbatim>\<open>catch\<close> keeps the accounts added so far.
  A callback of \<^verbatim>\<open>forEach\<close> throws on a \<^verbatim>\<open>null\<close> element, at its first property
  read, before it adds anything.
\<close>

definition tokenTransfer_accounts :: "json \<Rightarrow> json list \<Rightarrow> json list option" where
  "tokenTransfer_accounts t accounts =
     (if t = JNull then None
      else Some (add_truthy (get ''mint'' t)
                  (add_truthy (get ''toUserAccount'' t)
                    (add_truthy (get ''fromUserAccount'' t) accounts))))"

definition nativeTransfer_accounts :: "json \<Rightarrow> json list \<Rightarrow> json list option" where
  "nativeTransfer_accounts t accounts =
     (if t = JNull then None
      else Some (add_truthy (get ''toUserAccount'' t)
                  (add_truthy (get ''fromUserAccount'' t) accounts)))"

definition nft_accounts :: "json \<Rightarrow> json list \<Rightarrow> json list option" where
  "nft_accounts nft accounts =
     (if nft = JNull then None else Some (add_truthy (get ''mint'' nft) accounts))"

text \<open>\<^verbatim>\<open>const key = typeof acc === 'string' ? acc : acc?.pubkey; if (key) accounts.add(key)\<close>\<close>

definition accountKey_accounts :: "json \<Rightarrow> json list \<Rightarrow> json list option" where
  "accountKey_accounts acc accounts =
     Some (add_truthy (case acc of JStr s \<Rightarrow> Some acc | _ \<Rightarrow> get ''pubkey'' acc) accounts)"

definition accountData_accounts :: "json \<Rightarrow> json list \<Rightarrow> json list option" where
  "accountData_accounts ad accounts =
     (if ad = JNull then None else Some (add_truthy (get ''account'' ad) accounts))"

fun forEach ::
    "(json \<Rightarrow> json list \<Rightarrow> json list option) \<Rightarrow> json list \<Rightarrow> json list \<Rightarrow> json list + json list" where
  "forEach f [] accounts = Inr accounts"
| "forEach f (t # ts) accounts =
     (case f t accounts of None \<Rightarrow> Inl accounts | Some accounts' \<Rightarrow> forEach f ts accounts')"

text \<open>
  \<^verbatim>\<open>(x || []).forEach(f)\<close>: nothing to do on a falsy \<^verbatim>\<open>x\<close>; a truthy value that is
  not an array has no \<^verbatim>\<open>forEach\<close>, and the call throws.
\<close>

definition forEach_or_empty ::
    "(json \<Rightarrow> json list \<Rightarrow> json list option) \<Rightarrow> json option \<Rightarrow> json list \<Rightarrow> json list + json list" where
  "forEach_or_empty f x accounts =
     (if \<not> truthy_opt x then Inr accounts
      else case x of Some (JArr ts) \<Rightarrow> forEach f ts accounts | _ \<Rightarrow> Inl accounts)"

definition nftEvent_accounts :: "json option \<Rightarrow> json list \<Rightarrow> json list + json list" where
  "nftEvent_accounts nftEvent accounts =
     (case nftEvent of
        None \<Rightarrow> Inr accounts
      | Some e \<Rightarrow>
          if \<not> truthy e then Inr accounts
          else forEach_or_empty nft_accounts (get ''nfts'' e)
                 (add_truthy (get ''seller'' e) (add_truthy (get ''buyer'' e) accounts)))"

definition and_then ::
    "json list + json list \<Rightarrow> (json list \<Rightarrow> json list + json list) \<Rightarrow> json list + json list" where
  "and_then r f = (case r of Inl accounts \<Rightarrow> Inl accounts | Inr accounts \<Rightarrow> f accounts)"

definition getAccountsFromPayload :: "json \<Rightarrow> json list" where
  "getAccountsFromPayload payload =
     (case
        and_then (forEach_or_empty tokenTransfer_accounts (get ''tokenTransfers'' payload) [])
          (\<lambda>a. and_then (forEach_or_empty nativeTransfer_accounts (get ''nativeTransfers'' payload) a)
          (\<lambda>a. and_then (nftEvent_accounts (get_opt ''nft'' (get ''events'' payload)) a)
          (\<lambda>a. and_then (forEach_or_empty accountKey_accounts
                   (get_opt ''accountKeys'' (get_opt ''message'' (get ''transaction'' payload))) a)
          (\<lambda>a. and_then (forEach_or_empty accountData_accounts (get ''accountData'' payload) a)
          (\<lambda>a. Inr (if get ''source'' payload = Some (JStr ''PROGRAM_RULE'')
                     then add_truthy (get ''account'' payload) a else a))))))
      of Inl accounts \<Rightarrow> accounts | Inr accounts \<Rightarrow> accounts)"

text \<open>
  The receiver's \<^verbatim>\<open>switch (job.data_category)\<close>: the address a job monitors,
  \<open>None\<close> for \<^verbatim>\<open>null\<close> and \<^verbatim>\<open>undefined\<close>.
\<close>

definition jobMonitoredAddress :: "job \<Rightarrow> json option" where
  "jobMonitoredAddress job =
     (if job_data_category job = ''MINT_ACTIVITY''
        then get ''mintAddress'' (job_category_params job)
      else if job_data_category job = ''PROGRAM_INTERACTIONS''
        then get ''programId'' (job_category_params job)
      else None)"

text \<open>\<^verbatim>\<open>jobMonitoredAddress && involvedAccountsSet.has(jobMonitoredAddress)\<close>\<close>

definition address_matches :: "json list \<Rightarrow> json option \<Rightarrow> bool" where
  "address_matches involvedAccounts address =
     (case address of None \<Rightarrow> False | Some a \<Rightarrow> truthy a \<and> set_has involvedAccounts a)"

record queue_insert =
  qi_job_id :: string
  qi_payload :: json
  qi_status :: string
  qi_processing_attempts :: int

definition new_queue_item :: "job \<Rightarrow> json \<Rightarrow> queue_insert" where
  "new_queue_item job eventPayload =
     \<lparr>qi_job_id = job_id job, qi_payload = eventPayload,
      qi_status = ''pending'', qi_processing_attempts = 0\<rparr>"

text \<open>
  The inner loop \<^verbatim>\<open>for (const job of allActiveJobs)\<close> and the outer loop
  \<^verbatim>\<open>for (const eventPayload of payloads)\<close>, both pushing onto
  \<^verbatim>\<open>allQueueInserts\<close>. The counters of the source feed log lines only.
\<close>

fun match_jobs :: "json list \<Rightarrow> json \<Rightarrow> job list \<Rightarrow> queue_insert list \<Rightarrow> queue_insert list" where
  "match_jobs involvedAccounts eventPayload [] allQueueInserts = allQueueInserts"
| "match_jobs involvedAccounts eventPayload (job # jobs) allQueueInserts =
     match_jobs involvedAccounts eventPayload jobs
       (if address_matches involvedAccounts (jobMonitoredAddress job)
        then allQueueInserts @ [new_queue_item job eventPayload]
        else allQueueInserts)"

fun match_events :: "job list \<Rightarrow> json list \<Rightarrow> queue_insert list \<Rightarrow> queue_insert list" where
  "match_events allActiveJobs [] allQueueInserts = allQueueInserts"
| "match_events allActiveJobs (eventPayload # payloads) allQueueInserts =
     (let involvedAccounts = getAccountsFromPayload eventPayload
      in if involvedAccounts = [] then match_events allActiveJobs payloads allQueueInserts
         else match_events allActiveJobs payloads
                (match_jobs involvedAccounts eventPayload allActiveJobs allQueueInserts))"

text \<open>
  What \<^verbatim>\<open>for ... of\<close> iterates: the elements of an array, the characters of a
  string; any other value is not iterable and the loop throws a \<^verbatim>\<open>TypeError\<close>.
\<close>

fun iterate :: "json \<Rightarrow> json list option" where
  "iterate (JArr xs) = Some xs"
| "iterate (JStr s) = Some (map (\<lambda>c. JStr [c]) s)"
| "iterate _ = None"

datatype response_body = Text string | JsonError string | JsonJob job | NoBody

record response =
  resp_status :: nat
  resp_body :: response_body

record http_request =
  req_method :: string
  req_body :: string

text \<open>
  What the receiver's two database calls answer: the table of jobs, the error of the
  \<^verbatim>\<open>select\<close> on it, if any, and the error of the \<^verbatim>\<open>insert\<close> into the queue, if any.
\<close>

record receiver_db =
  rdb_jobs :: "job list"
  rdb_jobFetchError :: "string option"
  rdb_insertError :: "string option"

text \<open>
  The request handler of \<^verbatim>\<open>helius-webhook-receiver\<close>. \<open>JSON_parse\<close> stands for the
  built-in parser: \<open>Inl\<close> the message of the \<^verbatim>\<open>SyntaxError\<close> it throws, \<open>Inr\<close> the
  value it returns. The result is the response and the rows inserted into
  \<^verbatim>\<open>webhook_queue\<close>.

  The blocks of the source that follow the method test, the empty-body test, the
  \<^verbatim>\<open>catch\<close> of the parse, the array test and the empty-array test hold a comment and no
  statement, so control falls through each of them: after a failed parse \<^verbatim>\<open>payloads\<close>
  still holds its initial \<^verbatim>\<open>[]\<close>. Reading \<^verbatim>\<open>payloads.length\<close> throws on
  \<^verbatim>\<open>null\<close>. The outer \<^verbatim>\<open>catch\<close> answers 400 to a \<^verbatim>\<open>SyntaxError\<close> and 500 to
  any other error; no \<^verbatim>\<open>SyntaxError\<close> reaches it. The messages of the two
  \<^verbatim>\<open>TypeError\<close>s are the JavaScript engine's.
\<close>

definition receiver_failed :: "string \<Rightarrow> response" where
  "receiver_failed errorMsg =
     \<lparr>resp_status = 500, resp_body = JsonError (''Webhook processing failed: '' @ errorMsg)\<rparr>"

definition receiver_ok :: "string \<Rightarrow> response" where
  "receiver_ok text = \<lparr>resp_status = 200, resp_body = Text text\<rparr>"

definition match_and_queue :: "receiver_db \<Rightarrow> job list \<Rightarrow> json list \<Rightarrow> response \<times> queue_insert list" where
  "match_and_queue db allActiveJobs events =
     (let allQueueInserts = match_events allActiveJobs events []
      in if allQueueInserts \<noteq> [] \<and> rdb_insertError db \<noteq> None
         then (receiver_ok ''Webhook batch received, but errors occurred during processing.'', [])
         else (receiver_ok ''Webhook batch received successfully.'', allQueueInserts))"

definition helius_webhook_receiver ::
    "(string \<Rightarrow> string + json) \<Rightarrow> receiver_db \<Rightarrow> http_request \<Rightarrow> response \<times> queue_insert list" where
  "helius_webhook_receiver JSON_parse db req =
     (if req_method req = ''OPTIONS'' then (receiver_ok ''ok'', [])
      else
        let payloads = (case JSON_parse (req_body req) of Inl e \<Rightarrow> JArr [] | Inr v \<Rightarrow> v);
            allActiveJobs = filter (\<lambda>j. job_status j = ''active'') (rdb_jobs db)
        in if payloads = JNull
             then (receiver_failed ''Cannot read properties of null (reading 'length')'', [])
           else if rdb_jobFetchError db \<noteq> None
             then (receiver_failed (''Failed to fetch active jobs: '' @ the (rdb_jobFetchError db)), [])
           else if allActiveJobs = []
             then (receiver_ok ''Webhook batch received, no active jobs configured.'', [])
           else if iterate payloads = None
             then (receiver_failed ''payloads is not iterable'', [])
           else match_and_queue db allActiveJobs (the (iterate payloads)))"

section \<open>The worker\<close>

text \<open>
  The row a transform returns: column names and values.
  \<^verbatim>\<open>transformProgramInteraction\<close> logs a warning and returns \<^verbatim>\<open>null\<close>.
  \<^verbatim>\<open>transformMintActivity\<close> formats dates and divides floating-point numbers; it is a
  parameter of the model below, which only needs to know whether it returns a row.
\<close>

record dest_row =
  row_columns :: "string list"
  row_values :: "json list"

definition transformProgramInteraction :: "json \<Rightarrow> json \<Rightarrow> dest_row option" where
  "transformProgramInteraction payload jobParams = None"

text \<open>
  What the worker's surroundings answer while one item is processed: the two platform
  tables and the errors of the queries on them, the message that \<^verbatim>\<open>.single()\<close> reports
  when it does not find exactly one row, whether \<^verbatim>\<open>decrypt\<close> returns, and the errors of
  the destination database at the pool's test query, at \<^verbatim>\<open>pool.connect()\<close> and at the
  \<^verbatim>\<open>INSERT\<close>.
\<close>

record worker_env =
  we_jobs :: "job list"
  we_jobFetchError :: "string option"
  we_credentials :: "credential list"
  we_credFetchError :: "string option"
  we_singleRowMessage :: string
  we_decrypt :: "string \<Rightarrow> string option"
  we_poolTestError :: "string option"
  we_connectError :: "string option"
  we_queryError :: "string option"

text \<open>
  The local variables of \<^verbatim>\<open>processQueueItem\<close>, the pool cache \<^verbatim>\<open>userDbPools\<close>
  (the credential ids that have a pool), and what the function does to the outside: the
  updates of \<^verbatim>\<open>indexing_jobs\<close> it sends (job id, status, error message) and the
  \<^verbatim>\<open>INSERT\<close> statements it runs on the destination database (table, row).
\<close>

record pq_state =
  updateStatus :: string
  errorMessage :: "string option"
  jobData :: "job option"
  userDbClient :: bool
  userDbPools :: "string list"
  jobUpdates :: "(string \<times> string \<times> string) list"
  userDbInserts :: "(string \<times> dest_row) list"

text \<open>\<^verbatim>\<open>.eq('id', jobData.credential_id).single()\<close>: the row, or the error's message.\<close>

definition fetch_credential :: "worker_env \<Rightarrow> string \<Rightarrow> string + credential" where
  "fetch_credential env credential_id =
     (case we_credFetchError env of
        Some message \<Rightarrow> Inl message
      | None \<Rightarrow>
          (case filter (\<lambda>c. cred_id c = credential_id) (we_credentials env) of
             [c] \<Rightarrow> Inr c
           | _ \<Rightarrow> Inl (we_singleRowMessage env)))"

text \<open>
  \<^verbatim>\<open>getUserDbPool\<close>: the cache afterwards, or the message of the error thrown. A pool
  that fails its test query is closed and not cached.
\<close>

definition getUserDbPool :: "worker_env \<Rightarrow> string list \<Rightarrow> credential \<Rightarrow> string + string list" where
  "getUserDbPool env pools credential =
     (if cred_id credential \<in> set pools then Inr pools
      else case we_decrypt env (cred_encrypted_password credential) of
        None \<Rightarrow> Inl ''Password decryption failed''
      | Some decryptedPassword \<Rightarrow>
          (case we_poolTestError env of
             Some errorMsg \<Rightarrow> Inl (''Failed to connect to user DB: '' @ errorMsg)
           | None \<Rightarrow> Inr (pools @ [cred_id credential])))"

text \<open>\<^verbatim>\<open>/^[a-zA-Z0-9_]+$/.test(targetTable)\<close>\<close>

definition word_char :: "char \<Rightarrow> bool" where
  "word_char c \<longleftrightarrow>
     (let n = (of_char c :: nat)
      in (48 \<le> n \<and> n \<le> 57) \<or> (65 \<le> n \<and> n \<le> 90) \<or> (97 \<le> n \<and> n \<le> 122) \<or> n = 95)"

definition valid_table_name :: "string \<Rightarrow> bool" where
  "valid_table_name targetTable \<longleftrightarrow> targetTable \<noteq> [] \<and> list_all word_char targetTable"

text \<open>
  Steps 3 and 4 of the \<^verbatim>\<open>try\<close> block, with the job and a client of the destination
  database at hand: transform the payload, build the \<^verbatim>\<open>INSERT\<close> and run it.
  The result is the message of the error thrown, if any, and the state.
\<close>

definition transform_and_insert ::
    "(json \<Rightarrow> json \<Rightarrow> dest_row option) \<Rightarrow> worker_env \<Rightarrow> queue_item \<Rightarrow> job \<Rightarrow> pq_state \<Rightarrow>
       string option \<times> pq_state" where
  "transform_and_insert transformMintActivity env item job st =
     (if job_data_category job \<noteq> ''MINT_ACTIVITY'' \<and>
         job_data_category job \<noteq> ''PROGRAM_INTERACTIONS''
      then (Some (''Unsupported data_category: '' @ job_data_category job), st)
      else
        case (if job_data_category job = ''MINT_ACTIVITY''
              then transformMintActivity (wq_payload item) (job_category_params job)
              else transformProgramInteraction (wq_payload item) (job_category_params job)) of
          None \<Rightarrow>
            (Some (''Payload transformation failed or skipped for category '' @
                   job_data_category job @ ''.''),
             st\<lparr>updateStatus := ''processed''\<rparr>)
        | Some transformResult \<Rightarrow>
            if \<not> valid_table_name (job_target_table_name job)
            then (Some (''Invalid target table name specified: '' @ job_target_table_name job), st)
            else
              (let st' = st\<lparr>userDbInserts :=
                            userDbInserts st @ [(job_target_table_name job, transformResult)]\<rparr>
               in case we_queryError env of
                    Some message \<Rightarrow> (Some message, st')
                  | None \<Rightarrow> (None, st'\<lparr>updateStatus := ''processed''\<rparr>)))"

text \<open>
  Steps 1b and 2: resolve the credential, get its pool and a client. A missing
  credential sets \<^verbatim>\<open>errorMessage\<close>, sends the update that flags the job and throws.
\<close>

definition with_credential ::
    "(json \<Rightarrow> json \<Rightarrow> dest_row option) \<Rightarrow> worker_env \<Rightarrow> queue_item \<Rightarrow> job \<Rightarrow> pq_state \<Rightarrow>
       string option \<times> pq_state" where
  "with_credential transformMintActivity env item job st =
     (if job_credential_id job = []
      then (Some (''Job '' @ wq_job_id item @ '' is missing required credential_id.''),
            st\<lparr>updateStatus := ''failed''\<rparr>)
      else
        case fetch_credential env (job_credential_id job) of
          Inl message \<Rightarrow>
            (let text = ''Credential details not found for credential ID '' @
                        job_credential_id job @ '' linked to job '' @ wq_job_id item @
                        '' (perhaps deleted?): '' @
                        (if message = [] then ''Not found / PGRST116'' else message)
             in (Some text,
                 st\<lparr>errorMessage := Some text, updateStatus := ''failed'',
                    jobUpdates := jobUpdates st @
                      [(wq_job_id item, ''error'',
                        ''Credential missing: '' @ job_credential_id job)]\<rparr>))
        | Inr credentialData \<Rightarrow>
            (case getUserDbPool env (userDbPools st) credentialData of
               Inl message \<Rightarrow> (Some message, st)
             | Inr pools \<Rightarrow>
                 (case we_connectError env of
                    Some message \<Rightarrow> (Some message, st\<lparr>userDbPools := pools\<rparr>)
                  | None \<Rightarrow>
                      transform_and_insert transformMintActivity env item job
                        (st\<lparr>userDbPools := pools, userDbClient := True\<rparr>))))"

text \<open>The \<^verbatim>\<open>try\<close> block from its start: fetch the job, check that it is active.\<close>

definition try_block ::
    "(json \<Rightarrow> json \<Rightarrow> dest_row option) \<Rightarrow> worker_env \<Rightarrow> queue_item \<Rightarrow> pq_state \<Rightarrow>
       string option \<times> pq_state" where
  "try_block transformMintActivity env item st =
     (case we_jobFetchError env of
        Some message \<Rightarrow>
          (Some (''DB error fetching job details: '' @ message), st\<lparr>updateStatus := ''failed''\<rparr>)
      | None \<Rightarrow>
          (case filter (\<lambda>j. job_id j = wq_job_id item) (we_jobs env) of
             [] \<Rightarrow>
               (Some (''Job details query returned no rows for job '' @ wq_job_id item @
                      '' (perhaps deleted?).''),
                st\<lparr>updateStatus := ''processed''\<rparr>)
           | [fetchedJobData] \<Rightarrow>
               if job_status fetchedJobData \<noteq> ''active''
               then (Some ''Job not active'',
                     st\<lparr>jobData := Some fetchedJobData, updateStatus := ''processed''\<rparr>)
               else with_credential transformMintActivity env item fetchedJobData
                      (st\<lparr>jobData := Some fetchedJobData\<rparr>)
           | _ \<Rightarrow>
               (Some (''Inconsistent state: Multiple jobs found for ID '' @ wq_job_id item @ ''.''),
                st\<lparr>updateStatus := ''failed''\<rparr>)))"

text \<open>
  The \<^verbatim>\<open>catch\<close> block. \<^verbatim>\<open>item.id\<close> is truthy when it is not zero.
\<close>

definition isTableError :: "job \<Rightarrow> string \<Rightarrow> bool" where
  "isTableError job text \<longleftrightarrow>
     str_includes text
       (''relation '' @ [CHR 0x22] @ ''public.'' @ job_target_table_name job @
        [CHR 0x22] @ '' does not exist'') \<or>
     str_includes text ''column'' \<or>
     str_includes text ''type''"

definition catch_block :: "queue_item \<Rightarrow> string \<Rightarrow> pq_state \<Rightarrow> pq_state" where
  "catch_block item message st =
     (let st1 = (if errorMessage st \<noteq> Some message
                 then st\<lparr>errorMessage :=
                          Some (if message = [] then ''Unknown processing error'' else message)\<rparr>
                 else st);
          st2 = st1\<lparr>updateStatus :=
                      (if updateStatus st1 = ''processed'' then ''processed'' else ''failed'')\<rparr>
      in case (jobData st2, errorMessage st2) of
           (Some job, Some text) \<Rightarrow>
             if wq_id item \<noteq> 0 \<and> updateStatus st2 = ''failed'' \<and> isTableError job text
             then (let text' = ''Target table error: '' @ take 250 text
                   in st2\<lparr>errorMessage := Some text',
                          jobUpdates := jobUpdates st2 @ [(wq_job_id item, ''error'', text')]\<rparr>)
             else st2
         | _ \<Rightarrow> st2)"

text \<open>
  What one run of \<^verbatim>\<open>processQueueItem\<close> leaves: the update of the queue row it sends
  from the \<^verbatim>\<open>finally\<close> block (row id, status, error message; none when \<^verbatim>\<open>item.id\<close>
  is falsy), the updates of jobs, the \<^verbatim>\<open>INSERT\<close>s run and the pool cache.
\<close>

record pq_result =
  queueUpdate :: "(int \<times> string \<times> string option) option"
  pq_jobUpdates :: "(string \<times> string \<times> string) list"
  pq_userDbInserts :: "(string \<times> dest_row) list"
  pq_userDbPools :: "string list"

definition processQueueItem ::
    "(json \<Rightarrow> json \<Rightarrow> dest_row option) \<Rightarrow> worker_env \<Rightarrow> string list \<Rightarrow> queue_item \<Rightarrow> pq_result" where
  "processQueueItem transformMintActivity env pools item =
     (let st0 = \<lparr>updateStatus = ''failed'', errorMessage = None, jobData = None,
                 userDbClient = False, userDbPools = pools, jobUpdates = [],
                 userDbInserts = []\<rparr>;
          st = (case try_block transformMintActivity env item st0 of
                  (None, st1) \<Rightarrow> st1
                | (Some message, st1) \<Rightarrow> catch_block item message st1)
      in \<lparr>queueUpdate =
             (if wq_id item \<noteq> 0 then Some (wq_id item, updateStatus st, errorMessage st) else None),
          pq_jobUpdates = jobUpdates st,
          pq_userDbInserts = userDbInserts st,
          pq_userDbPools = userDbPools st\<rparr>)"

text \<open>
  The update of \<^verbatim>\<open>webhook_queue\<close> sent from the \<^verbatim>\<open>finally\<close> block, applied to
  the table: \<^verbatim>\<open>update({status, error_message, last_attempt}).eq('id', item.id)\<close>.
\<close>

definition apply_queue_update ::
    "int \<Rightarrow> (int \<times> string \<times> string option) option \<Rightarrow> queue_item list \<Rightarrow> queue_item list" where
  "apply_queue_update now upd tbl =
     (case upd of
        None \<Rightarrow> tbl
      | Some (item_id, status, error_message) \<Rightarrow>
          map (\<lambda>r. if wq_id r = item_id
                    then r\<lparr>wq_status := status, wq_error_message := error_message,
                           wq_last_attempt := Some now\<rparr>
                    else r) tbl)"

text \<open>
  \<^verbatim>\<open>pollQueue\<close> takes the first row the claim returns, if it has a truthy id:
  \<^verbatim>\<open>const item = (Array.isArray(rpcData) && rpcData.length > 0) ? rpcData[0] : null\<close>.
\<close>

definition pollQueue_item :: "queue_item list \<Rightarrow> queue_item option" where
  "pollQueue_item rpcData =
     (case rpcData of [] \<Rightarrow> None | item # _ \<Rightarrow> if wq_id item \<noteq> 0 then Some item else None)"

text \<open>
  Processing of an item of an active job gets as far as the transform (step 3) when the
  job names a credential, the credential is found, its pool is obtained and the pool
  hands out a client.
\<close>

definition reaches_transform :: "worker_env \<Rightarrow> string list \<Rightarrow> job \<Rightarrow> bool" where
  "reaches_transform env pools job \<longleftrightarrow>
     job_credential_id job \<noteq> [] \<and>
     (case fetch_credential env (job_credential_id job) of
        Inl message \<Rightarrow> False
      | Inr credentialData \<Rightarrow>
          (case getUserDbPool env pools credentialData of Inl message \<Rightarrow> False | Inr ps \<Rightarrow> True)) \<and>
     we_connectError env = None"

text \<open>
  One tick of \<^verbatim>\<open>pollQueue\<close> followed by the processing it starts and by the status
  update that processing sends: the claim at time \<open>now\<close>, the update at time \<open>later\<close>.
  The result is what processing did, if an item was claimed, and the queue afterwards.
\<close>

definition worker_tick ::
    "(json \<Rightarrow> json \<Rightarrow> dest_row option) \<Rightarrow> worker_env \<Rightarrow> string list \<Rightarrow> int \<Rightarrow> int \<Rightarrow> int \<Rightarrow>
       queue_item list \<Rightarrow> pq_result option \<times> queue_item list" where
  "worker_tick transformMintActivity env pools max_attempts now later tbl =
     (case pollQueue_item (fst (lock_and_get_queue_item max_attempts now tbl)) of
        None \<Rightarrow> (None, snd (lock_and_get_queue_item max_attempts now tbl))
      | Some item \<Rightarrow>
          (Some (processQueueItem transformMintActivity env pools item),
           apply_queue_update later
             (queueUpdate (processQueueItem transformMintActivity env pools item))
             (snd (lock_and_get_queue_item max_attempts now tbl))))"

section \<open>Job management and the webhook subscription\<close>

text \<open>
  \<^verbatim>\<open>getAllActiveAddresses\<close>. Its \<^verbatim>\<open>switch\<close> on the category is the receiver's.
  The addresses are collected in a \<^verbatim>\<open>Set\<close> of strings, kept in insertion order:
  \<^verbatim>\<open>if (address && typeof address === 'string' && address.trim() !== '') addressSet.add(address.trim())\<close>.
\<close>

definition addr_add :: "string list \<Rightarrow> string \<Rightarrow> string list" where
  "addr_add addressSet a = (if a \<in> set addressSet then addressSet else addressSet @ [a])"

fun collect_addresses :: "job list \<Rightarrow> string list \<Rightarrow> string list" where
  "collect_addresses [] addressSet = addressSet"
| "collect_addresses (job # activeJobs) addressSet =
     collect_addresses activeJobs
       (case jobMonitoredAddress job of
          Some (JStr address) \<Rightarrow>
            if address \<noteq> [] \<and> trim address \<noteq> [] then addr_add addressSet (trim address)
            else addressSet
        | _ \<Rightarrow> addressSet)"

text \<open>
  The query selects the jobs with \<^verbatim>\<open>status = 'active'\<close> and, when
  \<^verbatim>\<open>excludeJobId\<close> is truthy, an id other than it. The result is the address list, or
  the message of the error thrown when the query fails.
\<close>

definition getAllActiveAddresses ::
    "job list \<Rightarrow> string option \<Rightarrow> string option \<Rightarrow> string + string list" where
  "getAllActiveAddresses jobs fetchError excludeJobId =
     (case fetchError of
        Some message \<Rightarrow> Inl (''Could not fetch active job configurations: '' @ message)
      | None \<Rightarrow>
          Inr (collect_addresses
                 (filter (\<lambda>j. job_status j = ''active'' \<and>
                               (case excludeJobId of
                                  None \<Rightarrow> True
                                | Some x \<Rightarrow> x = [] \<or> job_id j \<noteq> x)) jobs) []))"

text \<open>
  The platform as the job functions see it: the two tables, the address list of the
  one Helius webhook, and the calls made so far that change something outside the
  function, in order, each with its success.
\<close>

datatype effect =
    WebhookEdit "string list" bool
  | JobInsert job bool
  | JobDelete string bool

record platform =
  pf_jobs :: "job list"
  pf_credentials :: "credential list"
  pf_accountAddresses :: "string list"
  pf_calls :: "effect list"

record helius_config =
  HELIUS_API_KEY :: string
  PLATFORM_WEBHOOK_ID :: string
  WEBHOOK_RECEIVER_URL_BASE :: string

text \<open>
  The answer of the Helius API to the \<^verbatim>\<open>PUT\<close>: success, or a status that is not ok
  together with the \<^verbatim>\<open>error\<close> field of its body, if it has one.
\<close>

datatype helius_reply = Reply_ok | Reply_not_ok nat "string option"

definition digit :: "nat \<Rightarrow> char" where
  "digit n = ''0123456789'' ! (n mod 10)"

fun show_nat :: "nat \<Rightarrow> string" where
  "show_nat n = (if n < 10 then [digit n] else show_nat (n div 10) @ [digit (n mod 10)])"

text \<open>\<^verbatim>\<open>[...new Set(accountAddresses)]\<close>\<close>

definition unique :: "string list \<Rightarrow> string list" where
  "unique accountAddresses = foldl addr_add [] accountAddresses"

text \<open>
  \<^verbatim>\<open>editPlatformWebhook\<close>: a full replacement of the webhook's address list. The
  result is the message of the error thrown, if any, and the platform afterwards. No
  request is sent when the configuration is missing.
\<close>

definition editPlatformWebhook ::
    "helius_config \<Rightarrow> helius_reply \<Rightarrow> string list \<Rightarrow> platform \<Rightarrow> string option \<times> platform" where
  "editPlatformWebhook cfg reply accountAddresses w =
     (if HELIUS_API_KEY cfg = [] \<or> PLATFORM_WEBHOOK_ID cfg = []
        then (Some ''Platform Helius config missing'', w)
      else if WEBHOOK_RECEIVER_URL_BASE cfg = []
        then (Some ''Webhook receiver URL is not configured.'', w)
      else case reply of
        Reply_ok \<Rightarrow>
          (None, w\<lparr>pf_accountAddresses := unique accountAddresses,
                   pf_calls := pf_calls w @ [WebhookEdit (unique accountAddresses) True]\<rparr>)
      | Reply_not_ok status error \<Rightarrow>
          (Some (case error of
                   Some e \<Rightarrow> if e = [] then ''Helius API edit request failed with status '' @ show_nat status
                             else e
                 | None \<Rightarrow> ''Helius API edit request failed with status '' @ show_nat status),
           w\<lparr>pf_calls := pf_calls w @ [WebhookEdit (unique accountAddresses) False]\<rparr>))"

text \<open>
  The \<^verbatim>\<open>catch\<close> block of the handler: the status is chosen from the words of the
  error message.
\<close>

definition error_status :: "string \<Rightarrow> nat" where
  "error_status message =
     (if str_includes message ''Database error'' \<or> str_includes message ''constraint'' then 500
      else if str_includes message ''Helius API'' \<or> str_includes message ''Helius config'' then 502
      else if str_includes message ''Invalid JSON payload'' then 400
      else if str_includes message ''credential ID'' then 403
      else 500)"

definition error_response :: "string \<Rightarrow> response" where
  "error_response message =
     \<lparr>resp_status = error_status message, resp_body = JsonError message\<rparr>"

definition early_response :: "nat \<Rightarrow> string \<Rightarrow> response" where
  "early_response status error = \<lparr>resp_status = status, resp_body = JsonError error\<rparr>"

subsection \<open>Creating a job\<close>

text \<open>
  What the surroundings answer during one \<^verbatim>\<open>POST\<close>: the errors of the queries, the
  replies of Helius to the edit and to the rollback edit, the id the database gives the
  new row, and the text the database stores or a template prints for a value that is not
  a string.
\<close>

record post_io =
  pio_credError :: "string option"
  pio_activeFetchError :: "string option"
  pio_editReply :: helius_reply
  pio_insertError :: "string option"
  pio_new_job_id :: string
  pio_rollbackReply :: helius_reply
  pio_as_text :: "json \<Rightarrow> string"

record new_job_request =
  nj_credential_id :: string
  nj_data_category :: string
  nj_category_params :: json
  nj_target_table_name :: string
  nj_address :: string

text \<open>
  \<^verbatim>\<open>!newJobAddress || typeof newJobAddress !== 'string' || newJobAddress.trim() === ''\<close>
  fails the request; otherwise the address is trimmed.
\<close>

definition newJobAddress :: "json option \<Rightarrow> string option" where
  "newJobAddress v =
     (case v of
        Some (JStr a) \<Rightarrow> if a \<noteq> [] \<and> trim a \<noteq> [] then Some (trim a) else None
      | _ \<Rightarrow> None)"

definition text_of :: "post_io \<Rightarrow> json \<Rightarrow> string" where
  "text_of io v = (case v of JStr s \<Rightarrow> s | _ \<Rightarrow> pio_as_text io v)"

text \<open>
  Body parsing and steps 1 and 2 of the \<^verbatim>\<open>POST\<close> case: the response that ends the
  request early (\<open>Inl\<close>), or the validated request (\<open>Inr\<close>). The table's ids are
  \<^verbatim>\<open>uuid\<close>s, so the query for a credential id that is not a string fails in the
  database.
\<close>

definition validate_address ::
    "post_io \<Rightarrow> json \<Rightarrow> string \<Rightarrow> response + new_job_request" where
  "validate_address io body credential_id =
     (let category_params = get ''category_params'' body;
          request = (\<lambda>category address.
            \<lparr>nj_credential_id = credential_id, nj_data_category = category,
             nj_category_params = (case category_params of Some p \<Rightarrow> p | None \<Rightarrow> JNull),
             nj_target_table_name =
               (case get ''target_table_name'' body of Some t \<Rightarrow> text_of io t | None \<Rightarrow> []),
             nj_address = address\<rparr>)
      in if get ''data_category'' body = Some (JStr ''MINT_ACTIVITY'') then
           (case newJobAddress (get_opt ''mintAddress'' category_params) of
              None \<Rightarrow> Inl (early_response 400
                ''Missing or invalid mintAddress in category_params for MINT_ACTIVITY'')
            | Some a \<Rightarrow> Inr (request ''MINT_ACTIVITY'' a))
         else if get ''data_category'' body = Some (JStr ''PROGRAM_INTERACTIONS'') then
           (case newJobAddress (get_opt ''programId'' category_params) of
              None \<Rightarrow> Inl (early_response 400
                ''Missing or invalid programId in category_params for PROGRAM_INTERACTIONS'')
            | Some a \<Rightarrow> Inr (request ''PROGRAM_INTERACTIONS'' a))
         else Inl (early_response 400
                (''Unsupported data_category: '' @
                 (case get ''data_category'' body of Some c \<Rightarrow> text_of io c | None \<Rightarrow> []))))"

definition validate_POST ::
    "(string \<Rightarrow> string + json) \<Rightarrow> post_io \<Rightarrow> platform \<Rightarrow> string \<Rightarrow> string option \<Rightarrow> string \<Rightarrow>
       response + new_job_request" where
  "validate_POST JSON_parse io w user_id resourceId rawBody =
     (if rawBody = [] then Inl (early_response 400 ''Request body cannot be empty for POST'')
      else case JSON_parse rawBody of
        Inl message \<Rightarrow> Inl (error_response (''Invalid JSON payload: '' @ message))
      | Inr body \<Rightarrow>
          if resourceId \<noteq> None then Inl (early_response 405 ''Method Not Allowed for this path'')
          else if \<not> truthy body then
            Inl (error_response
                   ''Request body is required for POST but was missing or failed to parse.'')
          else if \<not> truthy_opt (get ''credential_id'' body) \<or>
                  \<not> truthy_opt (get ''data_category'' body) \<or>
                  \<not> truthy_opt (get ''target_table_name'' body) \<or>
                  \<not> truthy_opt (get ''category_params'' body) then
            Inl (early_response 400
                   ''Missing required fields (credential_id, data_category, target_table_name, category_params)'')
          else if pio_credError io \<noteq> None then
            Inl (error_response
                   (''Database error verifying credential: '' @ the (pio_credError io)))
          else
            (case get ''credential_id'' body of
               Some (JStr credential_id) \<Rightarrow>
                 if list_ex (\<lambda>c. cred_id c = credential_id \<and> cred_user_id c = user_id)
                      (pf_credentials w)
                 then validate_address io body credential_id
                 else Inl (early_response 403 ''Invalid or inaccessible credential ID'')
             | _ \<Rightarrow>
                 Inl (error_response
                        ''Database error verifying credential: invalid input syntax for type uuid'')))"

text \<open>
  Steps 3 to 6: read the active addresses, add the new one, edit the webhook, then
  insert the job; when the insert fails, edit the webhook back to the list read in step 3,
  ignore what that edit throws, and throw the insert's error.
\<close>

definition create_job ::
    "helius_config \<Rightarrow> post_io \<Rightarrow> string \<Rightarrow> new_job_request \<Rightarrow> platform \<Rightarrow> response \<times> platform" where
  "create_job cfg io user_id request w =
     (case getAllActiveAddresses (pf_jobs w) (pio_activeFetchError io) None of
        Inl message \<Rightarrow> (error_response message, w)
      | Inr currentActiveAddresses \<Rightarrow>
          (let updatedAddressList = addr_add currentActiveAddresses (nj_address request)
           in case editPlatformWebhook cfg (pio_editReply io) updatedAddressList w of
                (Some message, w1) \<Rightarrow> (error_response message, w1)
              | (None, w1) \<Rightarrow>
                  (let savedJob =
                         \<lparr>job_id = pio_new_job_id io, job_user_id = user_id,
                          job_credential_id = nj_credential_id request,
                          job_data_category = nj_data_category request,
                          job_category_params = nj_category_params request,
                          job_target_table_name = nj_target_table_name request,
                          job_status = ''active'', job_error_message = None\<rparr>
                   in case pio_insertError io of
                        None \<Rightarrow>
                          (\<lparr>resp_status = 201, resp_body = JsonJob savedJob\<rparr>,
                           w1\<lparr>pf_jobs := pf_jobs w1 @ [savedJob],
                              pf_calls := pf_calls w1 @ [JobInsert savedJob True]\<rparr>)
                      | Some message \<Rightarrow>
                          (error_response (''Failed to save job to database: '' @ message),
                           snd (editPlatformWebhook cfg (pio_rollbackReply io)
                                  currentActiveAddresses
                                  (w1\<lparr>pf_calls := pf_calls w1 @ [JobInsert savedJob False]\<rparr>))))))"

definition manage_jobs_POST ::
    "(string \<Rightarrow> string + json) \<Rightarrow> helius_config \<Rightarrow> post_io \<Rightarrow> string \<Rightarrow> string option \<Rightarrow> string \<Rightarrow>
       platform \<Rightarrow> response \<times> platform" where
  "manage_jobs_POST JSON_parse cfg io user_id resourceId rawBody w =
     (case validate_POST JSON_parse io w user_id resourceId rawBody of
        Inl response \<Rightarrow> (response, w)
      | Inr request \<Rightarrow> create_job cfg io user_id request w)"

subsection \<open>Deleting a job\<close>

record delete_io =
  dio_fetchError :: "string option"
  dio_activeFetchError :: "string option"
  dio_editReply :: helius_reply
  dio_deleteError :: "string option"

text \<open>
  Step 2: \<^verbatim>\<open>deletedJobAddress = deletedJobAddress?.trim() || null\<close> on the address of
  the job's category. A value that is neither a string nor \<^verbatim>\<open>null\<close> has no
  \<^verbatim>\<open>trim\<close>: the call throws (\<open>Inl\<close>, with the engine's message).
\<close>

definition deletedJobAddress :: "job \<Rightarrow> string + string option" where
  "deletedJobAddress jobToDelete =
     (case jobMonitoredAddress jobToDelete of
        None \<Rightarrow> Inr None
      | Some JNull \<Rightarrow> Inr None
      | Some (JStr a) \<Rightarrow> Inr (if trim a = [] then None else Some (trim a))
      | Some _ \<Rightarrow> Inl ''deletedJobAddress?.trim is not a function'')"

text \<open>
  Steps 3 to 5: read the addresses of the other active jobs, edit the webhook when the
  deleted job's address is not among them (an error of that edit is logged and dropped),
  delete the row.
\<close>

definition delete_job ::
    "helius_config \<Rightarrow> delete_io \<Rightarrow> string \<Rightarrow> string option \<Rightarrow> platform \<Rightarrow> response \<times> platform" where
  "delete_job cfg io resourceId address w =
     (case getAllActiveAddresses (pf_jobs w) (dio_activeFetchError io) (Some resourceId) of
        Inl message \<Rightarrow> (error_response message, w)
      | Inr remainingActiveAddresses \<Rightarrow>
          (let isAddressStillNeeded =
                 (case address of None \<Rightarrow> False | Some a \<Rightarrow> a \<in> set remainingActiveAddresses);
               w1 = (if address \<noteq> None \<and> \<not> isAddressStillNeeded
                     then snd (editPlatformWebhook cfg (dio_editReply io) remainingActiveAddresses w)
                     else w)
           in case dio_deleteError io of
                Some message \<Rightarrow>
                  (error_response (''Database error deleting job: '' @ message),
                   w1\<lparr>pf_calls := pf_calls w1 @ [JobDelete resourceId False]\<rparr>)
              | None \<Rightarrow>
                  (\<lparr>resp_status = 204, resp_body = NoBody\<rparr>,
                   w1\<lparr>pf_jobs := filter (\<lambda>j. job_id j \<noteq> resourceId) (pf_jobs w1),
                      pf_calls := pf_calls w1 @ [JobDelete resourceId True]\<rparr>)))"

text \<open>
  The \<^verbatim>\<open>DELETE\<close> case from its start. \<^verbatim>\<open>.single()\<close> reports anything but exactly
  one row with the code \<^verbatim>\<open>PGRST116\<close>, which the handler answers with 404;
  \<open>dio_fetchError\<close> is an error of the query with another code.
\<close>

definition manage_jobs_DELETE ::
    "helius_config \<Rightarrow> delete_io \<Rightarrow> string \<Rightarrow> string option \<Rightarrow> platform \<Rightarrow> response \<times> platform" where
  "manage_jobs_DELETE cfg io user_id resourceId w =
     (case resourceId of
        None \<Rightarrow> (early_response 400 ''Job ID required in path'', w)
      | Some rid \<Rightarrow>
          if rid = [] then (early_response 400 ''Job ID required in path'', w)
          else if dio_fetchError io \<noteq> None
            then (error_response (''Database error fetching job: '' @ the (dio_fetchError io)), w)
          else
            (case filter (\<lambda>j. job_id j = rid) (pf_jobs w) of
               [jobToDelete] \<Rightarrow>
                 if job_user_id jobToDelete \<noteq> user_id then (early_response 403 ''Access denied'', w)
                 else (case deletedJobAddress jobToDelete of
                         Inl message \<Rightarrow> (error_response message, w)
                       | Inr address \<Rightarrow> delete_job cfg io rid address w)
             | _ \<Rightarrow> (early_response 404 ''Job not found'', w)))"

text \<open>
  The address a job requires of the subscription: its category's address parameter when
  that is a string with something other than white space in it, trimmed.
\<close>

definition required_address :: "job \<Rightarrow> string option" where
  "required_address job = newJobAddress (jobMonitoredAddress job)"

section \<open>Concurrent claims\<close>

text \<open>
  Several calls of \<^verbatim>\<open>lock_and_get_queue_item\<close> running at once, each in its own
  transaction. A call runs its two statements one after the other, and statements of
  different calls interleave in any order. The \<^verbatim>\<open>SELECT ... FOR UPDATE SKIP LOCKED\<close>
  takes a row lock that the transaction holds until it ends, and skips the rows that
  other transactions hold; the \<^verbatim>\<open>UPDATE ... RETURNING\<close> is the call's last statement,
  after which the transaction commits and its lock is gone.
\<close>

datatype call_state =
    Started
  | Locked int
  | Returned "queue_item list"

record claim_system =
  cs_table :: "queue_item list"
  cs_locks :: "int set"
  cs_calls :: "call_state list"

text \<open>
  The next statement of call \<open>c\<close>, run with \<^verbatim>\<open>max_attempts\<close> and at time \<open>now\<close>.
  A call that has returned does nothing more.
\<close>

definition call_step :: "nat \<Rightarrow> int \<Rightarrow> int \<Rightarrow> claim_system \<Rightarrow> claim_system" where
  "call_step c max_attempts now s =
     (if length (cs_calls s) \<le> c then s
      else case cs_calls s ! c of
        Started \<Rightarrow>
          (case select_for_update_skip_locked (cs_locks s) max_attempts (cs_table s) of
             None \<Rightarrow> s\<lparr>cs_calls := (cs_calls s)[c := Returned []]\<rparr>
           | Some locked_item_id \<Rightarrow>
               s\<lparr>cs_locks := insert locked_item_id (cs_locks s),
                 cs_calls := (cs_calls s)[c := Locked locked_item_id]\<rparr>)
      | Locked locked_item_id \<Rightarrow>
          s\<lparr>cs_table := snd (update_returning now locked_item_id (cs_table s)),
            cs_locks := cs_locks s - {locked_item_id},
            cs_calls := (cs_calls s)[c := Returned
                          (fst (update_returning now locked_item_id (cs_table s)))]\<rparr>
      | Returned rows \<Rightarrow> s)"

text \<open>A schedule names, step by step, the call that runs its next statement.\<close>

fun run_schedule :: "(nat \<times> int \<times> int) list \<Rightarrow> claim_system \<Rightarrow> claim_system" where
  "run_schedule [] s = s"
| "run_schedule ((c, max_attempts, now) # schedule) s =
     run_schedule schedule (call_step c max_attempts now s)"

definition concurrent_calls :: "nat \<Rightarrow> queue_item list \<Rightarrow> claim_system" where
  "concurrent_calls n tbl = \<lparr>cs_table = tbl, cs_locks = {}, cs_calls = replicate n Started\<rparr>"

text \<open>The rows a call has returned to its caller.\<close>

fun returned_rows :: "call_state \<Rightarrow> queue_item list" where
  "returned_rows (Returned rows) = rows"
| "returned_rows _ = []"

text \<open>
  What holds of the system at every moment: ids are distinct; a call between its two
  statements holds the lock of its row, and that row is still pending; no two calls hold
  the same row; a call has returned at most one row, and no row with a returned id is
  pending; the rows returned by different calls have different ids.
\<close>

definition claim_inv :: "claim_system \<Rightarrow> bool" where
  "claim_inv s \<longleftrightarrow>
     distinct (map wq_id (cs_table s)) \<and>
     (\<forall>c i. c < length (cs_calls s) \<and> cs_calls s ! c = Locked i \<longrightarrow>
        i \<in> cs_locks s \<and> (\<exists>r\<in>set (cs_table s). wq_id r = i \<and> wq_status r = ''pending'')) \<and>
     (\<forall>c d i. c < length (cs_calls s) \<and> d < length (cs_calls s) \<and> c \<noteq> d \<and>
        cs_calls s ! c = Locked i \<longrightarrow> cs_calls s ! d \<noteq> Locked i) \<and>
     (\<forall>c rows. c < length (cs_calls s) \<and> cs_calls s ! c = Returned rows \<longrightarrow>
        length rows \<le> 1 \<and>
        (\<forall>r\<in>set rows. \<forall>x\<in>set (cs_table s). wq_id x = wq_id r \<longrightarrow> wq_status x \<noteq> ''pending'')) \<and>
     (\<forall>c d rows rows'. c < length (cs_calls s) \<and> d < length (cs_calls s) \<and> c \<noteq> d \<and>
        cs_calls s ! c = Returned rows \<and> cs_calls s ! d = Returned rows' \<longrightarrow>
        wq_id ` set rows \<inter> wq_id ` set rows' = {})"

section \<open>Example data\<close>

text \<open>A queue of three pending rows; the second has used up three attempts.\<close>

definition example_queue :: "queue_item list" where
  "example_queue =
     [\<lparr>wq_id = 1, wq_job_id = ''job-a'', wq_received_at = 30, wq_payload = JNull,
       wq_status = ''pending'', wq_processing_attempts = 0, wq_last_attempt = None,
       wq_error_message = None\<rparr>,
      \<lparr>wq_id = 2, wq_job_id = ''job-a'', wq_received_at = 10, wq_payload = JNull,
       wq_status = ''pending'', wq_processing_attempts = 3, wq_last_attempt = Some 5,
       wq_error_message = None\<rparr>,
      \<lparr>wq_id = 3, wq_job_id = ''job-b'', wq_received_at = 20, wq_payload = JNull,
       wq_status = ''pending'', wq_processing_attempts = 1, wq_last_attempt = Some 7,
       wq_error_message = None\<rparr>]"

text \<open>
  Two active jobs of one user, their credential, and surroundings of the worker in which
  every call succeeds; an item that has been claimed once.
\<close>

definition example_program_job :: job where
  "example_program_job =
     \<lparr>job_id = ''job-p'', job_user_id = ''user-1'', job_credential_id = ''cred-1'',
      job_data_category = ''PROGRAM_INTERACTIONS'',
      job_category_params = JObj [(''programId'', JStr ''P1'')],
      job_target_table_name = ''helius_program_activity'', job_status = ''active'',
      job_error_message = None\<rparr>"

definition example_mint_job :: job where
  "example_mint_job =
     \<lparr>job_id = ''job-m'', job_user_id = ''user-1'', job_credential_id = ''cred-1'',
      job_data_category = ''MINT_ACTIVITY'',
      job_category_params = JObj [(''mintAddress'', JStr ''M1'')],
      job_target_table_name = ''helius_mint_activity'', job_status = ''active'',
      job_error_message = None\<rparr>"

definition example_credential :: credential where
  "example_credential =
     \<lparr>cred_id = ''cred-1'', cred_user_id = ''user-1'', cred_host = ''db.example.org'',
      cred_port = 5432, cred_db_name = ''postgres'', cred_username = ''indexer'',
      cred_encrypted_password = ''iv.tag.data'', cred_ssl_mode = Some ''require''\<rparr>"

definition example_env :: worker_env where
  "example_env =
     \<lparr>we_jobs = [example_program_job, example_mint_job], we_jobFetchError = None,
      we_credentials = [example_credential], we_credFetchError = None,
      we_singleRowMessage = ''JSON object requested, multiple (or no) rows returned'',
      we_decrypt = (\<lambda>cipherText. Some ''secret''), we_poolTestError = None,
      we_connectError = None, we_queryError = None\<rparr>"

definition example_item :: "string \<Rightarrow> queue_item" where
  "example_item job =
     \<lparr>wq_id = 1, wq_job_id = job, wq_received_at = 10,
      wq_payload = JObj [(''signature'', JStr ''sig-1'')],
      wq_status = ''processing'', wq_processing_attempts = 1, wq_last_attempt = Some 100,
      wq_error_message = None\<rparr>"

text \<open>A queue that holds one pending item of the mint job, never tried.\<close>

definition retry_queue :: "queue_item list" where
  "retry_queue =
     [\<lparr>wq_id = 1, wq_job_id = ''job-m'', wq_received_at = 10,
       wq_payload = JObj [(''signature'', JStr ''sig-1'')],
       wq_status = ''pending'', wq_processing_attempts = 0, wq_last_attempt = None,
       wq_error_message = None\<rparr>]"

text \<open>
  A batch of one event with a token transfer of the mint M1, the body that carries it, a
  body cut off in the middle, and a parser that agrees with \<^verbatim>\<open>JSON.parse\<close> on these
  two bodies; a second mint job, which monitors M2, and the receiver's view of a database
  that holds both mint jobs.
\<close>

definition example_event :: json where
  "example_event =
     JObj [(''signature'', JStr ''sig-1''),
           (''tokenTransfers'',
            JArr [JObj [(''fromUserAccount'', JStr ''A1''), (''toUserAccount'', JStr ''A2''),
                        (''mint'', JStr ''M1'')]])]"

definition example_body :: string where
  \<open>example_body =
     ''[{"signature":"sig-1","tokenTransfers":[{"fromUserAccount":"A1","toUserAccount":"A2","mint":"M1"}]}]''\<close>

definition malformed_body :: string where
  \<open>malformed_body = ''[{"signature":"sig-1","tokenTransfers":''\<close>

definition example_parse :: "string \<Rightarrow> string + json" where
  "example_parse body =
     (if body = example_body then Inr (JArr [example_event])
      else Inl ''Unexpected end of JSON input'')"

definition example_mint_job_M2 :: job where
  "example_mint_job_M2 =
     \<lparr>job_id = ''job-m2'', job_user_id = ''user-2'', job_credential_id = ''cred-2'',
      job_data_category = ''MINT_ACTIVITY'',
      job_category_params = JObj [(''mintAddress'', JStr ''M2'')],
      job_target_table_name = ''helius_mint_activity'', job_status = ''active'',
      job_error_message = None\<rparr>"

definition example_db :: receiver_db where
  "example_db =
     \<lparr>rdb_jobs = [example_mint_job, example_mint_job_M2], rdb_jobFetchError = None,
      rdb_insertError = None\<rparr>"

text \<open>
  A configured platform whose webhook monitors the addresses of its two active mint jobs;
  a platform on which both jobs monitor M1; surroundings in which a deletion succeeds at
  every call; a request that creates a job for the mint M3, written with blanks around
  it, in surroundings where the insert of the job fails and every other call succeeds.
\<close>

definition example_config :: helius_config where
  "example_config =
     \<lparr>HELIUS_API_KEY = ''api-key'', PLATFORM_WEBHOOK_ID = ''webhook-1'',
      WEBHOOK_RECEIVER_URL_BASE =
        ''https://ref.supabase.co/functions/v1/helius-webhook-receiver''\<rparr>"

definition example_platform :: platform where
  "example_platform =
     \<lparr>pf_jobs = [example_mint_job, example_mint_job_M2],
      pf_credentials = [example_credential],
      pf_accountAddresses = [''M1'', ''M2''], pf_calls = []\<rparr>"

definition shared_platform :: platform where
  "shared_platform =
     \<lparr>pf_jobs = [example_mint_job,
                 example_mint_job_M2\<lparr>job_category_params := JObj [(''mintAddress'', JStr ''M1'')]\<rparr>],
      pf_credentials = [example_credential],
      pf_accountAddresses = [''M1''], pf_calls = []\<rparr>"

definition example_delete_io :: delete_io where
  "example_delete_io =
     \<lparr>dio_fetchError = None, dio_activeFetchError = None, dio_editReply = Reply_ok,
      dio_deleteError = None\<rparr>"

definition example_post_body :: string where
  \<open>example_post_body =
     ''{"credential_id":"cred-1","data_category":"MINT_ACTIVITY","target_table_name":"helius_mint_activity","category_params":{"mintAddress":" M3 "}}''\<close>

definition example_post_parse :: "string \<Rightarrow> string + json" where
  "example_post_parse body =
     (if body = example_post_body
      then Inr (JObj [(''credential_id'', JStr ''cred-1''),
                      (''data_category'', JStr ''MINT_ACTIVITY''),
                      (''target_table_name'', JStr ''helius_mint_activity''),
                      (''category_params'', JObj [(''mintAddress'', JStr '' M3 '')])])
      else Inl ''Unexpected end of JSON input'')"

definition example_post_io :: post_io where
  "example_post_io =
     \<lparr>pio_credError = None, pio_activeFetchError = None, pio_editReply = Reply_ok,
      pio_insertError = Some ''connection lost'', pio_new_job_id = ''job-new'',
      pio_rollbackReply = Reply_ok, pio_as_text = (\<lambda>v. [])\<rparr>"

definition example_new_job :: job where
  "example_new_job =
     \<lparr>job_id = ''job-new'', job_user_id = ''user-1'', job_credential_id = ''cred-1'',
      job_data_category = ''MINT_ACTIVITY'',
      job_category_params = JObj [(''mintAddress'', JStr '' M3 '')],
      job_target_table_name = ''helius_mint_activity'', job_status = ''active'',
      job_error_message = None\<rparr>"

section \<open>Properties of the claim primitive\<close>

lemma filter_key_singleton:
  "distinct (map f xs) \<Longrightarrow> r \<in> set xs \<Longrightarrow> filter (\<lambda>x. f x = f r) xs = [r]"
proof (induction xs)
  case Nil
  then show ?case by simp
next
  case (Cons a xs)
  show ?case
  proof (cases "a = r")
    case True
    with Cons.prems have "\<forall>x\<in>set xs. f x \<noteq> f r" by (auto simp: image_iff)
    then have "filter (\<lambda>x. f x = f r) xs = []" by (simp add: filter_empty_conv)
    with True show ?thesis by simp
  next
    case False
    with Cons.prems have "r \<in> set xs" and "f a \<noteq> f r" by (auto simp: image_iff)
    with Cons show ?thesis by simp
  qed
qed

lemma distinct_key_eq:
  "distinct (map f xs) \<Longrightarrow> x \<in> set xs \<Longrightarrow> y \<in> set xs \<Longrightarrow> f x = f y \<Longrightarrow> x = y"
  by (auto simp: distinct_map dest: inj_onD)

lemma select_None_iff:
  "select_for_update_skip_locked locked m tbl = None \<longleftrightarrow>
     (\<forall>r\<in>set tbl. \<not> (claimable m r \<and> wq_id r \<notin> locked))"
proof -
  let ?c = "filter (\<lambda>r. claimable m r \<and> wq_id r \<notin> locked) tbl"
  have "select_for_update_skip_locked locked m tbl = None \<longleftrightarrow> sort_key wq_received_at ?c = []"
    by (simp add: select_for_update_skip_locked_def split: list.splits)
  also have "\<dots> \<longleftrightarrow> ?c = []"
    by (cases ?c) simp_all
  also have "\<dots> \<longleftrightarrow> (\<forall>r\<in>set tbl. \<not> (claimable m r \<and> wq_id r \<notin> locked))"
    by (simp add: filter_empty_conv)
  finally show ?thesis .
qed

lemma select_Some_oldest:
  assumes "select_for_update_skip_locked locked m tbl = Some i"
  shows "\<exists>r\<in>set tbl. wq_id r = i \<and> claimable m r \<and> i \<notin> locked \<and>
           (\<forall>x\<in>set tbl. claimable m x \<and> wq_id x \<notin> locked \<longrightarrow>
              wq_received_at r \<le> wq_received_at x)"
proof -
  let ?c = "filter (\<lambda>r. claimable m r \<and> wq_id r \<notin> locked) tbl"
  from assms obtain r rs where srt: "sort_key wq_received_at ?c = r # rs" and i: "i = wq_id r"
    by (auto simp: select_for_update_skip_locked_def split: list.splits)
  have "set (sort_key wq_received_at ?c) = set ?c" by simp
  with srt have mem: "set ?c = insert r (set rs)" by simp
  then have r: "r \<in> set tbl" "claimable m r" "wq_id r \<notin> locked" by auto
  have "sorted (map wq_received_at (sort_key wq_received_at ?c))" by (rule sorted_sort_key)
  with srt have "\<forall>x\<in>set rs. wq_received_at r \<le> wq_received_at x" by simp
  with mem have "\<forall>x\<in>set ?c. wq_received_at r \<le> wq_received_at x" by auto
  then have "\<forall>x\<in>set tbl. claimable m x \<and> wq_id x \<notin> locked \<longrightarrow>
      wq_received_at r \<le> wq_received_at x" by simp
  with r i show ?thesis by blast
qed

lemma update_returning_row:
  assumes "distinct (map wq_id tbl)" and "r \<in> set tbl"
  shows "update_returning now (wq_id r) tbl =
           ([set_processing now r],
            map (\<lambda>x. if wq_id x = wq_id r then set_processing now r else x) tbl)"
proof -
  let ?A = "map (\<lambda>x. if wq_id x = wq_id r then set_processing now x else x) tbl"
  let ?B = "map (\<lambda>x. if wq_id x = wq_id r then set_processing now r else x) tbl"
  have same: "?A = ?B"
  proof (rule map_cong[OF refl])
    fix x assume "x \<in> set tbl"
    then have "wq_id x = wq_id r \<Longrightarrow> x = r"
      using assms by (rule_tac distinct_key_eq[of wq_id tbl])
    then show "(if wq_id x = wq_id r then set_processing now x else x) =
               (if wq_id x = wq_id r then set_processing now r else x)" by auto
  qed
  have "filter (\<lambda>x. wq_id x = wq_id r) ?A =
        map (set_processing now) (filter (\<lambda>x. wq_id x = wq_id r) tbl)"
    by (induction tbl) (auto simp: set_processing_def)
  also have "\<dots> = [set_processing now r]"
    using filter_key_singleton[OF assms] by simp
  finally have flt: "filter (\<lambda>x. wq_id x = wq_id r) ?A = [set_processing now r]" .
  show ?thesis
    unfolding update_returning_def Let_def prod.inject
  proof (intro conjI)
    show "filter (\<lambda>x. wq_id x = wq_id r) ?A = [set_processing now r]" by (rule flt)
    show "?A = ?B" by (rule same)
  qed
qed

lemma update_returning_ids:
  "map wq_id (snd (update_returning now i tbl)) = map wq_id tbl"
  by (induction tbl) (auto simp: update_returning_def Let_def set_processing_def)

lemma update_returning_other:
  "x \<in> set tbl \<Longrightarrow> wq_id x \<noteq> i \<Longrightarrow> x \<in> set (snd (update_returning now i tbl))"
  by (auto simp: update_returning_def Let_def image_iff intro!: bexI[of _ x])

lemma update_returning_fst_id:
  "y \<in> set (fst (update_returning now i tbl)) \<Longrightarrow> wq_id y = i"
  by (auto simp: update_returning_def Let_def)

lemma claim_ids:
  "map wq_id (snd (lock_and_get_queue_item m now tbl)) = map wq_id tbl"
  by (simp add: lock_and_get_queue_item_def update_returning_ids split: option.splits)

lemma claim_distinct:
  "distinct (map wq_id tbl) \<Longrightarrow> distinct (map wq_id (snd (lock_and_get_queue_item m now tbl)))"
  by (simp add: claim_ids)

lemma claim_keeps_unclaimable:
  assumes "distinct (map wq_id tbl)" and "x \<in> set tbl" and "\<not> claimable m x"
  shows "x \<in> set (snd (lock_and_get_queue_item m now tbl))"
    and "wq_id x \<notin> wq_id ` set (fst (lock_and_get_queue_item m now tbl))"
proof -
  show "x \<in> set (snd (lock_and_get_queue_item m now tbl))"
  proof (cases "select_for_update_skip_locked {} m tbl")
    case None
    with assms show ?thesis by (simp add: lock_and_get_queue_item_def)
  next
    case (Some i)
    from select_Some_oldest[OF Some] obtain r where
      r: "r \<in> set tbl" "wq_id r = i" "claimable m r" by blast
    have "wq_id x \<noteq> i"
    proof
      assume "wq_id x = i"
      with r assms have "x = r" by (auto intro: distinct_key_eq[of wq_id tbl])
      with r(3) assms(3) show False by simp
    qed
    with Some assms show ?thesis
      by (simp add: lock_and_get_queue_item_def update_returning_other)
  qed
  show "wq_id x \<notin> wq_id ` set (fst (lock_and_get_queue_item m now tbl))"
  proof (cases "select_for_update_skip_locked {} m tbl")
    case None
    then show ?thesis by (simp add: lock_and_get_queue_item_def)
  next
    case (Some i)
    from select_Some_oldest[OF Some] obtain r where
      r: "r \<in> set tbl" "wq_id r = i" "claimable m r" by blast
    have "wq_id x \<noteq> i"
    proof
      assume "wq_id x = i"
      with r assms have "x = r" by (auto intro: distinct_key_eq[of wq_id tbl])
      with r(3) assms(3) show False by simp
    qed
    with Some show ?thesis
      by (auto simp: lock_and_get_queue_item_def dest: update_returning_fst_id)
  qed
qed

lemma repeated_claims_unclaimable:
  assumes "distinct (map wq_id tbl)" and "x \<in> set tbl" and "\<not> claimable m x"
  shows "\<forall>rows\<in>set (fst (repeated_claims m nows tbl)). wq_id x \<notin> wq_id ` set rows"
  using assms
proof (induction nows arbitrary: tbl)
  case Nil
  then show ?case by simp
next
  case (Cons now nows)
  let ?tbl' = "snd (lock_and_get_queue_item m now tbl)"
  have d: "distinct (map wq_id ?tbl')" using Cons.prems(1) by (rule claim_distinct)
  have x: "x \<in> set ?tbl'" using Cons.prems by (rule claim_keeps_unclaimable(1))
  have here: "wq_id x \<notin> wq_id ` set (fst (lock_and_get_queue_item m now tbl))"
    using Cons.prems by (rule claim_keeps_unclaimable(2))
  have rest: "\<forall>rows\<in>set (fst (repeated_claims m nows ?tbl')). wq_id x \<notin> wq_id ` set rows"
    using Cons.IH[OF d x Cons.prems(3)] .
  show ?case using here rest
    by (simp add: split_beta Let_def)
qed

text \<open>
  C2. Postcondition of the claim primitive, for a table whose ids are distinct (the
  primary key). If no row is pending with an attempt counter below \<open>max_attempts\<close>, the
  call returns no row and leaves the table unchanged. Otherwise it returns exactly one
  row: a pending row below \<open>max_attempts\<close> whose \<^verbatim>\<open>received_at\<close> is the least among such
  rows, with its status set to processing, its attempt counter raised by one and its
  last-attempt time set to the time of the call; that row, and no other, is changed in the
  table. A row whose attempt counter has reached \<open>max_attempts\<close> is returned by none of any
  number of later claim calls.
\<close>

theorem claim_postcondition:
  assumes "distinct (map wq_id tbl)"
  shows "((\<forall>r\<in>set tbl. \<not> claimable max_attempts r) \<longrightarrow>
            lock_and_get_queue_item max_attempts now tbl = ([], tbl)) \<and>
         ((\<exists>r\<in>set tbl. claimable max_attempts r) \<longrightarrow>
            (\<exists>r\<in>set tbl. claimable max_attempts r \<and>
               (\<forall>x\<in>set tbl. claimable max_attempts x \<longrightarrow> wq_received_at r \<le> wq_received_at x) \<and>
               lock_and_get_queue_item max_attempts now tbl =
                 ([r\<lparr>wq_status := ''processing'',
                     wq_processing_attempts := wq_processing_attempts r + 1,
                     wq_last_attempt := Some now\<rparr>],
                  map (\<lambda>x. if wq_id x = wq_id r
                            then r\<lparr>wq_status := ''processing'',
                                   wq_processing_attempts := wq_processing_attempts r + 1,
                                   wq_last_attempt := Some now\<rparr>
                            else x) tbl))) \<and>
         (\<forall>x\<in>set tbl. max_attempts \<le> wq_processing_attempts x \<longrightarrow>
            (\<forall>rows\<in>set (fst (repeated_claims max_attempts nows tbl)).
               wq_id x \<notin> wq_id ` set rows))"
proof (intro conjI impI ballI)
  assume "\<forall>r\<in>set tbl. \<not> claimable max_attempts r"
  then have "select_for_update_skip_locked {} max_attempts tbl = None"
    by (simp add: select_None_iff)
  then show "lock_and_get_queue_item max_attempts now tbl = ([], tbl)"
    by (simp add: lock_and_get_queue_item_def)
next
  assume "\<exists>r\<in>set tbl. claimable max_attempts r"
  then have "select_for_update_skip_locked {} max_attempts tbl \<noteq> None"
    by (simp add: select_None_iff)
  then obtain i where sel: "select_for_update_skip_locked {} max_attempts tbl = Some i" by blast
  from select_Some_oldest[OF sel] obtain r where
    r: "r \<in> set tbl" "wq_id r = i" "claimable max_attempts r"
       "\<forall>x\<in>set tbl. claimable max_attempts x \<longrightarrow> wq_received_at r \<le> wq_received_at x"
    by auto
  have "lock_and_get_queue_item max_attempts now tbl = update_returning now (wq_id r) tbl"
    using sel r(2) by (simp add: lock_and_get_queue_item_def)
  also have "\<dots> = ([set_processing now r],
                    map (\<lambda>x. if wq_id x = wq_id r then set_processing now r else x) tbl)"
    using assms r(1) by (rule update_returning_row)
  finally show "\<exists>r\<in>set tbl. claimable max_attempts r \<and>
      (\<forall>x\<in>set tbl. claimable max_attempts x \<longrightarrow> wq_received_at r \<le> wq_received_at x) \<and>
      lock_and_get_queue_item max_attempts now tbl =
        ([r\<lparr>wq_status := ''processing'',
            wq_processing_attempts := wq_processing_attempts r + 1,
            wq_last_attempt := Some now\<rparr>],
         map (\<lambda>x. if wq_id x = wq_id r
                   then r\<lparr>wq_status := ''processing'',
                          wq_processing_attempts := wq_processing_attempts r + 1,
                          wq_last_attempt := Some now\<rparr>
                   else x) tbl)"
    using r(1,3,4) unfolding set_processing_def by blast
next
  fix x rows
  assume x: "x \<in> set tbl" "max_attempts \<le> wq_processing_attempts x"
    and rows: "rows \<in> set (fst (repeated_claims max_attempts nows tbl))"
  from x(2) have "\<not> claimable max_attempts x" by (simp add: claimable_def)
  from repeated_claims_unclaimable[OF assms x(1) this] rows
  show "wq_id x \<notin> wq_id ` set rows" by blast
qed

theorem claim_postcondition_witness:
  "distinct (map wq_id example_queue) \<and>
   claimable 3 (example_queue ! 2) \<and>
   lock_and_get_queue_item 3 100 example_queue =
     ([(example_queue ! 2)\<lparr>wq_status := ''processing'', wq_processing_attempts := 2,
                           wq_last_attempt := Some 100\<rparr>],
      [example_queue ! 0, example_queue ! 1,
       (example_queue ! 2)\<lparr>wq_status := ''processing'', wq_processing_attempts := 2,
                           wq_last_attempt := Some 100\<rparr>]) \<and>
   3 \<le> wq_processing_attempts (example_queue ! 1) \<and>
   map (map wq_id) (fst (repeated_claims 3 [100, 200, 300] example_queue)) = [[3], [1], []]"
  using claim_postcondition[of example_queue 3 100 "[100, 200, 300]"]
  by (simp add: example_queue_def lock_and_get_queue_item_def select_for_update_skip_locked_def
      claimable_def update_returning_def set_processing_def Let_def)

section \<open>Properties of the worker\<close>

lemmas worker_defs = processQueueItem_def try_block_def with_credential_def fetch_credential_def
  getUserDbPool_def transform_and_insert_def transformProgramInteraction_def catch_block_def
  isTableError_def Let_def example_env_def example_item_def example_program_job_def
  example_mint_job_def example_credential_def

lemma set_processing_id [simp]: "wq_id (set_processing now r) = wq_id r"
  by (simp add: set_processing_def)

lemma update_returning_snd_mem:
  "x \<in> set (snd (update_returning now k tbl)) \<Longrightarrow> wq_id x \<noteq> k \<Longrightarrow> x \<in> set tbl"
  by (auto simp: update_returning_def Let_def split: if_splits)

lemma claim_never_returns:
  assumes "\<forall>x\<in>set tbl. wq_id x = i \<longrightarrow> \<not> claimable m x"
  shows "i \<notin> wq_id ` set (fst (lock_and_get_queue_item m now tbl))"
    and "\<forall>x\<in>set (snd (lock_and_get_queue_item m now tbl)). wq_id x = i \<longrightarrow> \<not> claimable m x"
proof -
  show "i \<notin> wq_id ` set (fst (lock_and_get_queue_item m now tbl))"
  proof (cases "select_for_update_skip_locked {} m tbl")
    case None
    then show ?thesis by (simp add: lock_and_get_queue_item_def)
  next
    case (Some k)
    from select_Some_oldest[OF Some] assms have "k \<noteq> i" by blast
    moreover have "lock_and_get_queue_item m now tbl = update_returning now k tbl"
      using Some by (simp add: lock_and_get_queue_item_def)
    ultimately show ?thesis
      using update_returning_fst_id[of _ now k tbl] by auto
  qed
  show "\<forall>x\<in>set (snd (lock_and_get_queue_item m now tbl)). wq_id x = i \<longrightarrow> \<not> claimable m x"
  proof (cases "select_for_update_skip_locked {} m tbl")
    case None
    with assms show ?thesis by (simp add: lock_and_get_queue_item_def)
  next
    case (Some k)
    from select_Some_oldest[OF Some] assms have ki: "k \<noteq> i" by blast
    have eq: "lock_and_get_queue_item m now tbl = update_returning now k tbl"
      using Some by (simp add: lock_and_get_queue_item_def)
    show ?thesis
    proof (intro ballI impI)
      fix x assume x: "x \<in> set (snd (lock_and_get_queue_item m now tbl))" "wq_id x = i"
      then have "x \<in> set tbl"
        using update_returning_snd_mem[of x now k tbl] ki eq by simp
      with assms x(2) show "\<not> claimable m x" by blast
    qed
  qed
qed

lemma repeated_claims_never_return:
  assumes "\<forall>x\<in>set tbl. wq_id x = i \<longrightarrow> \<not> claimable m x"
  shows "\<forall>rows\<in>set (fst (repeated_claims m nows tbl)). i \<notin> wq_id ` set rows"
  using assms
proof (induction nows arbitrary: tbl)
  case Nil
  then show ?case by simp
next
  case (Cons now nows)
  let ?tbl' = "snd (lock_and_get_queue_item m now tbl)"
  have here: "i \<notin> wq_id ` set (fst (lock_and_get_queue_item m now tbl))"
    using Cons.prems by (rule claim_never_returns(1))
  have "\<forall>x\<in>set ?tbl'. wq_id x = i \<longrightarrow> \<not> claimable m x"
    using Cons.prems by (rule claim_never_returns(2))
  then have rest: "\<forall>rows\<in>set (fst (repeated_claims m nows ?tbl')). i \<notin> wq_id ` set rows"
    by (rule Cons.IH)
  show ?case using here rest
    by (simp add: split_beta Let_def)
qed

lemma apply_queue_update_status:
  assumes "x \<in> set (apply_queue_update now (Some (i, status, e)) tbl)" and "wq_id x = i"
  shows "wq_status x = status"
proof -
  from assms(1) obtain y where y: "y \<in> set tbl"
    and x: "x = (if wq_id y = i
                 then y\<lparr>wq_status := status, wq_error_message := e, wq_last_attempt := Some now\<rparr>
                 else y)"
    unfolding apply_queue_update_def by auto
  show ?thesis
  proof (cases "wq_id y = i")
    case True
    with x show ?thesis by simp
  next
    case False
    with x assms(2) show ?thesis by simp
  qed
qed

lemma reported_never_reclaimed:
  assumes "status \<noteq> ''pending''"
  shows "\<forall>rows\<in>set (fst (repeated_claims m nows
            (apply_queue_update now (Some (i, status, e)) tbl))). i \<notin> wq_id ` set rows"
proof (rule repeated_claims_never_return, intro ballI impI)
  fix x assume "x \<in> set (apply_queue_update now (Some (i, status, e)) tbl)" "wq_id x = i"
  then have "wq_status x = status" by (rule apply_queue_update_status)
  with assms show "\<not> claimable m x" by (simp add: claimable_def)
qed

lemma try_block_absent:
  assumes "we_jobFetchError env = None"
    and "filter (\<lambda>j. job_id j = wq_job_id item) (we_jobs env) = []"
  shows "try_block t env item st =
           (Some (''Job details query returned no rows for job '' @ wq_job_id item @
                  '' (perhaps deleted?).''), st\<lparr>updateStatus := ''processed''\<rparr>)"
  using assms by (simp add: try_block_def)

lemma try_block_inactive:
  assumes "we_jobFetchError env = None"
    and "filter (\<lambda>j. job_id j = wq_job_id item) (we_jobs env) = [job]"
    and "job_status job \<noteq> ''active''"
  shows "try_block t env item st =
           (Some ''Job not active'', st\<lparr>jobData := Some job, updateStatus := ''processed''\<rparr>)"
  using assms by (simp add: try_block_def)

lemma catch_block_processed:
  assumes "updateStatus st = ''processed''"
  shows "updateStatus (catch_block item message st) = ''processed''"
    and "jobUpdates (catch_block item message st) = jobUpdates st"
    and "userDbInserts (catch_block item message st) = userDbInserts st"
    and "errorMessage (catch_block item message st) \<noteq> None"
  using assms by (auto simp: catch_block_def Let_def split: option.splits)

text \<open>
  C9. A claimed item (its id is truthy) whose job is no longer in the table, or is there
  with a status other than active, is reported processed, with an error text; the worker
  runs no \<^verbatim>\<open>INSERT\<close> on any destination table and sends no job update; and once the
  report is applied to the queue, no later claim call returns the item, whatever
  \<open>max_attempts\<close> it is called with.
\<close>

theorem moot_item_processed:
  assumes "wq_id item \<noteq> 0"
    and "we_jobFetchError env = None"
    and "filter (\<lambda>j. job_id j = wq_job_id item) (we_jobs env) = [] \<or>
         (\<exists>job. filter (\<lambda>j. job_id j = wq_job_id item) (we_jobs env) = [job] \<and>
                job_status job \<noteq> ''active'')"
  shows "(\<exists>msg. queueUpdate (processQueueItem transformMintActivity env pools item) =
                   Some (wq_id item, ''processed'', Some msg)) \<and>
         pq_userDbInserts (processQueueItem transformMintActivity env pools item) = [] \<and>
         pq_jobUpdates (processQueueItem transformMintActivity env pools item) = [] \<and>
         (\<forall>rows\<in>set (fst (repeated_claims max_attempts nows
              (apply_queue_update now
                 (queueUpdate (processQueueItem transformMintActivity env pools item)) tbl))).
            wq_id item \<notin> wq_id ` set rows)"
proof -
  let ?st0 = "\<lparr>updateStatus = ''failed'', errorMessage = None, jobData = None,
               userDbClient = False, userDbPools = pools, jobUpdates = [],
               userDbInserts = []\<rparr>"
  have "\<exists>message st1. try_block transformMintActivity env item ?st0 = (Some message, st1) \<and>
          updateStatus st1 = ''processed'' \<and> jobUpdates st1 = [] \<and> userDbInserts st1 = []"
  proof (cases "filter (\<lambda>j. job_id j = wq_job_id item) (we_jobs env) = []")
    case True
    show ?thesis
      unfolding try_block_absent[OF assms(2) True] by simp
  next
    case False
    with assms(3) obtain job where
      job: "filter (\<lambda>j. job_id j = wq_job_id item) (we_jobs env) = [job]"
           "job_status job \<noteq> ''active''" by blast
    show ?thesis
      unfolding try_block_inactive[OF assms(2) job] by simp
  qed
  then obtain message st1 where
    tb: "try_block transformMintActivity env item ?st0 = (Some message, st1)"
    and st1: "updateStatus st1 = ''processed''" "jobUpdates st1 = []" "userDbInserts st1 = []"
    by blast
  let ?st = "catch_block item message st1"
  have st: "updateStatus ?st = ''processed''" "jobUpdates ?st = []" "userDbInserts ?st = []"
    using catch_block_processed(1,2,3)[OF st1(1), of item message] st1 by simp_all
  obtain msg where msg: "errorMessage ?st = Some msg"
    using catch_block_processed(4)[OF st1(1), of item message] by blast
  have R: "processQueueItem transformMintActivity env pools item =
             \<lparr>queueUpdate = Some (wq_id item, ''processed'', Some msg),
              pq_jobUpdates = [], pq_userDbInserts = [], pq_userDbPools = userDbPools ?st\<rparr>"
    using tb st msg assms(1) by (simp add: processQueueItem_def)
  have "\<forall>rows\<in>set (fst (repeated_claims max_attempts nows
              (apply_queue_update now (Some (wq_id item, ''processed'', Some msg)) tbl))).
            wq_id item \<notin> wq_id ` set rows"
    by (rule reported_never_reclaimed) simp
  with R show ?thesis by simp
qed

lemma catch_block_failed:
  assumes "updateStatus st \<noteq> ''processed''"
  shows "updateStatus (catch_block item message st) = ''failed''"
    and "userDbInserts (catch_block item message st) = userDbInserts st"
    and "errorMessage (catch_block item message st) \<noteq> None"
  using assms by (auto simp: catch_block_def Let_def split: option.splits)

lemma transform_and_insert_program:
  assumes "job_data_category job = ''PROGRAM_INTERACTIONS''"
  shows "transform_and_insert t env item job st =
           (Some (''Payload transformation failed or skipped for category '' @
                  job_data_category job @ ''.''), st\<lparr>updateStatus := ''processed''\<rparr>)"
  using assms by (simp add: transform_and_insert_def transformProgramInteraction_def)

lemma with_credential_program:
  assumes "job_data_category job = ''PROGRAM_INTERACTIONS''"
    and "userDbInserts st = []" and "userDbPools st = pools"
    and "updateStatus st = ''failed''"
  shows "\<exists>message st'. with_credential t env item job st = (Some message, st') \<and>
           userDbInserts st' = [] \<and>
           updateStatus st' = (if reaches_transform env pools job then ''processed'' else ''failed'' )"
proof (cases "job_credential_id job = []")
  case True
  with assms show ?thesis by (simp add: with_credential_def reaches_transform_def)
next
  case cid: False
  show ?thesis
  proof (cases "fetch_credential env (job_credential_id job)")
    case (Inl m)
    with cid assms show ?thesis
      by (simp add: with_credential_def reaches_transform_def Let_def)
  next
    case (Inr c)
    show ?thesis
    proof (cases "getUserDbPool env pools c")
      case (Inl m)
      with cid Inr assms show ?thesis
        by (simp add: with_credential_def reaches_transform_def)
    next
      case pool: (Inr ps)
      show ?thesis
      proof (cases "we_connectError env")
        case None
        with cid Inr pool assms show ?thesis
          by (simp add: with_credential_def reaches_transform_def transform_and_insert_program)
      next
        case (Some m)
        with cid Inr pool assms show ?thesis
          by (simp add: with_credential_def reaches_transform_def)
      qed
    qed
  qed
qed

text \<open>
  C10, as amended. For a claimed item whose job has the category
  \<^verbatim>\<open>PROGRAM_INTERACTIONS\<close>, the transform returns no row and the worker runs no
  \<^verbatim>\<open>INSERT\<close> on the destination database. The item is reported processed when the job
  is not active or when processing reaches the transform, and failed otherwise, that is
  when the credential is missing or no connection is obtained.
\<close>

theorem program_interactions_no_rows:
  assumes "wq_id item \<noteq> 0"
    and "we_jobFetchError env = None"
    and "filter (\<lambda>j. job_id j = wq_job_id item) (we_jobs env) = [job]"
    and "job_data_category job = ''PROGRAM_INTERACTIONS''"
  shows "transformProgramInteraction (wq_payload item) (job_category_params job) = None \<and>
         pq_userDbInserts (processQueueItem transformMintActivity env pools item) = [] \<and>
         (\<exists>msg. queueUpdate (processQueueItem transformMintActivity env pools item) =
            Some (wq_id item,
                  if job_status job \<noteq> ''active'' \<or> reaches_transform env pools job
                  then ''processed'' else ''failed'',
                  Some msg))"
proof -
  let ?st0 = "\<lparr>updateStatus = ''failed'', errorMessage = None, jobData = None,
               userDbClient = False, userDbPools = pools, jobUpdates = [],
               userDbInserts = []\<rparr>"
  let ?s = "if job_status job \<noteq> ''active'' \<or> reaches_transform env pools job
            then ''processed'' else ''failed''"
  have "\<exists>message st1. try_block transformMintActivity env item ?st0 = (Some message, st1) \<and>
          updateStatus st1 = ?s \<and> userDbInserts st1 = []"
  proof (cases "job_status job = ''active''")
    case False
    show ?thesis
      unfolding try_block_inactive[OF assms(2,3) False] using False by simp
  next
    case True
    have tb: "try_block transformMintActivity env item ?st0 =
            with_credential transformMintActivity env item job (?st0\<lparr>jobData := Some job\<rparr>)"
      using assms(2,3) True by (simp add: try_block_def)
    show ?thesis
      unfolding tb
      using with_credential_program[OF assms(4), of "?st0\<lparr>jobData := Some job\<rparr>" pools
              transformMintActivity env item] True
      by auto
  qed
  then obtain message st1 where
    tb: "try_block transformMintActivity env item ?st0 = (Some message, st1)"
    and st1: "updateStatus st1 = ?s" "userDbInserts st1 = []"
    by blast
  let ?st = "catch_block item message st1"
  have st: "updateStatus ?st = ?s \<and> userDbInserts ?st = [] \<and> errorMessage ?st \<noteq> None"
  proof (cases "updateStatus st1 = ''processed''")
    case True
    with catch_block_processed[OF True, of item message] st1 show ?thesis by simp
  next
    case False
    with st1 have "?s = ''failed''" by (auto split: if_splits)
    with catch_block_failed[OF False, of item message] st1 show ?thesis by simp
  qed
  then obtain msg where msg: "errorMessage ?st = Some msg" by blast
  have "processQueueItem transformMintActivity env pools item =
          \<lparr>queueUpdate = Some (wq_id item, ?s, Some msg),
           pq_jobUpdates = jobUpdates ?st, pq_userDbInserts = [],
           pq_userDbPools = userDbPools ?st\<rparr>"
    using tb st msg assms(1) by (simp add: processQueueItem_def Let_def)
  then show ?thesis
    by (simp add: transformProgramInteraction_def)
qed

theorem moot_item_processed_witness:
  "wq_id (example_item ''job-gone'') \<noteq> 0 \<and>
   we_jobFetchError example_env = None \<and>
   filter (\<lambda>j. job_id j = wq_job_id (example_item ''job-gone'')) (we_jobs example_env) = [] \<and>
   processQueueItem (\<lambda>payload params. None) example_env [] (example_item ''job-gone'') =
     \<lparr>queueUpdate = Some (1, ''processed'',
        Some ''Job details query returned no rows for job job-gone (perhaps deleted?).''),
      pq_jobUpdates = [], pq_userDbInserts = [], pq_userDbPools = []\<rparr> \<and>
   map wq_status (apply_queue_update 110
      (queueUpdate (processQueueItem (\<lambda>payload params. None) example_env []
         (example_item ''job-gone''))) [example_item ''job-gone'']) = [''processed''] \<and>
   fst (repeated_claims 3 [200, 300]
      (apply_queue_update 110
         (queueUpdate (processQueueItem (\<lambda>payload params. None) example_env []
            (example_item ''job-gone''))) [example_item ''job-gone''])) = [[], []]"
  using moot_item_processed[of "example_item ''job-gone''" example_env "\<lambda>payload params. None" "[]"
          3 "[200, 300]" 110 "[example_item ''job-gone'']"]
  by (simp add: worker_defs apply_queue_update_def lock_and_get_queue_item_def
      select_for_update_skip_locked_def claimable_def)

text \<open>
  The claim C10 as first stated fails where the credential of an active
  \<^verbatim>\<open>PROGRAM_INTERACTIONS\<close> job is gone: the item is reported failed, and the job is
  flagged.
\<close>

theorem program_interactions_counterexample:
  "job_data_category example_program_job = ''PROGRAM_INTERACTIONS'' \<and>
   filter (\<lambda>j. job_id j = wq_job_id (example_item ''job-p''))
     (we_jobs (example_env\<lparr>we_credentials := []\<rparr>)) = [example_program_job] \<and>
   processQueueItem (\<lambda>payload params. None) (example_env\<lparr>we_credentials := []\<rparr>) []
       (example_item ''job-p'') =
     \<lparr>queueUpdate = Some (1, ''failed'',
        Some (''Credential details not found for credential ID cred-1 linked to job job-p '' @
              ''(perhaps deleted?): JSON object requested, multiple (or no) rows returned'')),
      pq_jobUpdates = [(''job-p'', ''error'', ''Credential missing: cred-1'')],
      pq_userDbInserts = [], pq_userDbPools = []\<rparr>"
  by (simp add: worker_defs)

theorem program_interactions_no_rows_witness:
  "wq_id (example_item ''job-p'') \<noteq> 0 \<and>
   we_jobFetchError example_env = None \<and>
   filter (\<lambda>j. job_id j = wq_job_id (example_item ''job-p'')) (we_jobs example_env) =
     [example_program_job] \<and>
   job_data_category example_program_job = ''PROGRAM_INTERACTIONS'' \<and>
   job_status example_program_job = ''active'' \<and>
   reaches_transform example_env [] example_program_job \<and>
   processQueueItem (\<lambda>payload params. None) example_env [] (example_item ''job-p'') =
     \<lparr>queueUpdate = Some (1, ''processed'',
        Some ''Payload transformation failed or skipped for category PROGRAM_INTERACTIONS.''),
      pq_jobUpdates = [], pq_userDbInserts = [], pq_userDbPools = [''cred-1'']\<rparr>"
  using program_interactions_no_rows[of "example_item ''job-p''" example_env example_program_job
          "\<lambda>payload params. None" "[]"]
  by (simp add: worker_defs reaches_transform_def)

text \<open>
  C3 at a failing input. The queue holds one pending item that was never tried, and
  \<^verbatim>\<open>MAX_PROCESSING_ATTEMPTS\<close> is 3. The worker claims it; the destination database
  times out at \<^verbatim>\<open>pool.connect()\<close>; the worker reports the item failed and leaves the
  job alone. The item has used one attempt of three, yet the next claim returns nothing:
  the claim selects pending rows only, and nothing sets a failed row back to pending.
\<close>

theorem transient_failure_not_retried:
  "worker_tick (\<lambda>payload params. None)
     (example_env\<lparr>we_connectError := Some ''timeout exceeded when trying to connect''\<rparr>) []
     3 100 110 retry_queue =
     (Some \<lparr>queueUpdate = Some (1, ''failed'', Some ''timeout exceeded when trying to connect''),
            pq_jobUpdates = [], pq_userDbInserts = [], pq_userDbPools = [''cred-1'']\<rparr>,
      [\<lparr>wq_id = 1, wq_job_id = ''job-m'', wq_received_at = 10,
        wq_payload = JObj [(''signature'', JStr ''sig-1'')],
        wq_status = ''failed'', wq_processing_attempts = 1, wq_last_attempt = Some 110,
        wq_error_message = Some ''timeout exceeded when trying to connect''\<rparr>]) \<and>
   (1 :: int) < 3 \<and>
   fst (lock_and_get_queue_item 3 200
     (snd (worker_tick (\<lambda>payload params. None)
        (example_env\<lparr>we_connectError := Some ''timeout exceeded when trying to connect''\<rparr>) []
        3 100 110 retry_queue))) = []"
  by (simp add: worker_tick_def pollQueue_item_def retry_queue_def worker_defs
      apply_queue_update_def lock_and_get_queue_item_def select_for_update_skip_locked_def
      claimable_def update_returning_def set_processing_def)

section \<open>Properties of the receiver\<close>

lemma match_jobs_filter:
  "match_jobs involved ev jobs acc =
     acc @ map (\<lambda>j. new_queue_item j ev)
             (filter (\<lambda>j. address_matches involved (jobMonitoredAddress j)) jobs)"
  by (induction jobs arbitrary: acc) simp_all

lemma address_matches_empty [simp]: "address_matches [] a = False"
  by (simp add: address_matches_def set_has_def split: option.splits)

lemma match_events_concat:
  "match_events jobs events acc =
     acc @ concat (map (\<lambda>ev. map (\<lambda>j. new_queue_item j ev)
                          (filter (\<lambda>j. address_matches (getAccountsFromPayload ev)
                                        (jobMonitoredAddress j)) jobs)) events)"
proof (induction events arbitrary: acc)
  case Nil
  then show ?case by simp
next
  case (Cons ev events)
  show ?case
  proof (cases "getAccountsFromPayload ev = []")
    case True
    then show ?thesis by (simp add: Cons.IH)
  next
    case False
    then show ?thesis by (simp add: Cons.IH match_jobs_filter Let_def)
  qed
qed

lemma items_per_job:
  assumes "distinct (map job_id jobs)" and "j \<in> set jobs"
  shows "length (filter (\<lambda>q. qi_job_id q = job_id j)
                  (map (\<lambda>j'. new_queue_item j' ev) (filter P jobs))) = (if P j then 1 else 0)"
proof -
  have "filter (\<lambda>q. qi_job_id q = job_id j) (map (\<lambda>j'. new_queue_item j' ev) (filter P jobs)) =
        map (\<lambda>j'. new_queue_item j' ev) (filter P (filter (\<lambda>j'. job_id j' = job_id j) jobs))"
    by (induction jobs) (auto simp: new_queue_item_def)
  also have "filter (\<lambda>j'. job_id j' = job_id j) jobs = [j]"
    using assms by (rule filter_key_singleton)
  finally show ?thesis by simp
qed

lemma receiver_well_formed:
  assumes "req_method req \<noteq> ''OPTIONS''"
    and "JSON_parse (req_body req) = Inr (JArr events)"
    and "rdb_jobFetchError db = None"
  shows "helius_webhook_receiver JSON_parse db req =
           (if filter (\<lambda>j. job_status j = ''active'') (rdb_jobs db) = []
            then (receiver_ok ''Webhook batch received, no active jobs configured.'', [])
            else match_and_queue db (filter (\<lambda>j. job_status j = ''active'') (rdb_jobs db)) events)"
  using assms by (simp add: helius_webhook_receiver_def Let_def)

lemmas receiver_defs = helius_webhook_receiver_def match_and_queue_def receiver_ok_def
  receiver_failed_def getAccountsFromPayload_def and_then_def forEach_or_empty_def
  nftEvent_accounts_def tokenTransfer_accounts_def nativeTransfer_accounts_def
  nft_accounts_def accountKey_accounts_def accountData_accounts_def add_truthy_def
  set_add_def set_has_def address_matches_def jobMonitoredAddress_def new_queue_item_def
  Let_def example_event_def example_body_def malformed_body_def example_parse_def
  example_mint_job_def example_mint_job_M2_def example_db_def

lemma address_matches_iff:
  "address_matches involved address \<longleftrightarrow>
     (\<exists>a. address = Some a \<and> truthy a \<and> is_primitive a \<and> a \<in> set involved)"
  by (cases address) (auto simp: address_matches_def set_has_def)

text \<open>
  C6. For a request whose body parses to an array of events, with the job query and the
  queue insert succeeding and job ids distinct (the primary key): the rows inserted are,
  event by event in batch order, one row for each active job whose monitored address
  matches the event, carrying the job's id and the event's payload; hence for every event
  and every active job exactly one row of that job is created for the event when the
  address matches and none otherwise. An address matches exactly when it is a truthy
  value (for a string: not empty) that is a member of the accounts extracted from the
  event. The witness is the scenario of the specification: a token transfer of mint M1, a
  job monitoring M1 and a job monitoring M2.
\<close>

theorem matching_is_membership:
  assumes "req_method req \<noteq> ''OPTIONS''"
    and "JSON_parse (req_body req) = Inr (JArr events)"
    and "rdb_jobFetchError db = None"
    and "rdb_insertError db = None"
    and "distinct (map job_id (rdb_jobs db))"
  shows "snd (helius_webhook_receiver JSON_parse db req) =
           concat (map (\<lambda>ev. map (\<lambda>j. new_queue_item j ev)
                     (filter (\<lambda>j. job_status j = ''active'' \<and>
                                   address_matches (getAccountsFromPayload ev) (jobMonitoredAddress j))
                        (rdb_jobs db))) events) \<and>
         (\<forall>ev j. j \<in> set (rdb_jobs db) \<and> job_status j = ''active'' \<longrightarrow>
            length (filter (\<lambda>q. qi_job_id q = job_id j)
                     (map (\<lambda>j. new_queue_item j ev)
                        (filter (\<lambda>j. job_status j = ''active'' \<and>
                                      address_matches (getAccountsFromPayload ev) (jobMonitoredAddress j))
                           (rdb_jobs db)))) =
            (if address_matches (getAccountsFromPayload ev) (jobMonitoredAddress j) then 1 else 0)) \<and>
         (\<forall>involved address. address_matches involved address \<longleftrightarrow>
            (\<exists>a. address = Some a \<and> truthy a \<and> is_primitive a \<and> a \<in> set involved))"
proof (intro conjI allI impI)
  let ?active = "filter (\<lambda>j. job_status j = ''active'') (rdb_jobs db)"
  let ?m = "\<lambda>ev j. address_matches (getAccountsFromPayload ev) (jobMonitoredAddress j)"
  have wf: "helius_webhook_receiver JSON_parse db req =
           (if ?active = []
            then (receiver_ok ''Webhook batch received, no active jobs configured.'', [])
            else match_and_queue db ?active events)"
    using assms(1,2,3) by (rule receiver_well_formed)
  have flt: "\<And>ev. filter (?m ev) ?active =
               filter (\<lambda>j. job_status j = ''active'' \<and> ?m ev j) (rdb_jobs db)"
    by (simp add: conj_commute)
  show "snd (helius_webhook_receiver JSON_parse db req) =
           concat (map (\<lambda>ev. map (\<lambda>j. new_queue_item j ev)
                     (filter (\<lambda>j. job_status j = ''active'' \<and> ?m ev j) (rdb_jobs db))) events)"
  proof (cases "?active = []")
    case True
    then have "\<And>ev. filter (\<lambda>j. job_status j = ''active'' \<and> ?m ev j) (rdb_jobs db) = []"
      by (auto simp: filter_empty_conv)
    then show ?thesis
      using True by (simp add: wf)
  next
    case False
    then show ?thesis
      using assms(4)
      by (simp add: wf match_and_queue_def match_events_concat Let_def flt)
  qed
next
  fix ev j
  assume j: "j \<in> set (rdb_jobs db) \<and> job_status j = ''active''"
  show "length (filter (\<lambda>q. qi_job_id q = job_id j)
                     (map (\<lambda>j. new_queue_item j ev)
                        (filter (\<lambda>j. job_status j = ''active'' \<and>
                                      address_matches (getAccountsFromPayload ev) (jobMonitoredAddress j))
                           (rdb_jobs db)))) =
            (if address_matches (getAccountsFromPayload ev) (jobMonitoredAddress j) then 1 else 0)"
    using items_per_job[OF assms(5), of j ev
            "\<lambda>j. job_status j = ''active'' \<and>
                 address_matches (getAccountsFromPayload ev) (jobMonitoredAddress j)"] j
    by simp
next
  fix involved address
  show "address_matches involved address \<longleftrightarrow>
          (\<exists>a. address = Some a \<and> truthy a \<and> is_primitive a \<and> a \<in> set involved)"
    by (rule address_matches_iff)
qed

theorem matching_is_membership_witness:
  "req_method \<lparr>req_method = ''POST'', req_body = example_body\<rparr> \<noteq> ''OPTIONS'' \<and>
   example_parse (req_body \<lparr>req_method = ''POST'', req_body = example_body\<rparr>) =
     Inr (JArr [example_event]) \<and>
   rdb_jobFetchError example_db = None \<and> rdb_insertError example_db = None \<and>
   distinct (map job_id (rdb_jobs example_db)) \<and>
   getAccountsFromPayload example_event = [JStr ''A1'', JStr ''A2'', JStr ''M1''] \<and>
   jobMonitoredAddress example_mint_job = Some (JStr ''M1'') \<and>
   jobMonitoredAddress example_mint_job_M2 = Some (JStr ''M2'') \<and>
   helius_webhook_receiver example_parse example_db
       \<lparr>req_method = ''POST'', req_body = example_body\<rparr> =
     (\<lparr>resp_status = 200, resp_body = Text ''Webhook batch received successfully.''\<rparr>,
      [\<lparr>qi_job_id = ''job-m'', qi_payload = example_event, qi_status = ''pending'',
        qi_processing_attempts = 0\<rparr>])"
  using matching_is_membership[of "\<lparr>req_method = ''POST'', req_body = example_body\<rparr>"
          example_parse "[example_event]" example_db]
  by (simp add: receiver_defs)

text \<open>
  C4 at a failing input. The body is not empty and the parser throws on it; the
  \<^verbatim>\<open>catch\<close> next to the parse is empty, the batch stays \<^verbatim>\<open>[]\<close>, and the receiver
  answers 200 where the claim, the comment in that \<^verbatim>\<open>catch\<close> and the status chosen
  for a \<^verbatim>\<open>SyntaxError\<close> in the outer \<^verbatim>\<open>catch\<close> say 400.
\<close>

theorem malformed_json_answered_200:
  "malformed_body \<noteq> [] \<and>
   example_parse malformed_body = Inl ''Unexpected end of JSON input'' \<and>
   helius_webhook_receiver example_parse example_db
       \<lparr>req_method = ''POST'', req_body = malformed_body\<rparr> =
     (\<lparr>resp_status = 200, resp_body = Text ''Webhook batch received successfully.''\<rparr>, [])"
  by (simp add: receiver_defs)

text \<open>
  Whatever the parser and the database answer, a body that does not parse is answered
  with 200 or with 500, and nothing is queued.
\<close>

lemma malformed_json_never_400:
  assumes "JSON_parse (req_body req) = Inl e"
  shows "resp_status (fst (helius_webhook_receiver JSON_parse db req)) \<in> {200, 500}"
    and "snd (helius_webhook_receiver JSON_parse db req) = []"
  using assms
  by (simp_all add: helius_webhook_receiver_def match_and_queue_def receiver_ok_def
      receiver_failed_def Let_def)

text \<open>
  The claim C5 as first stated fails: with a well-formed batch of one event and a failing
  job query the receiver answers 500.
\<close>

theorem directory_failure_counterexample:
  "example_parse example_body = Inr (JArr [example_event]) \<and>
   resp_status (fst (helius_webhook_receiver example_parse
       (example_db\<lparr>rdb_jobFetchError := Some ''connection refused''\<rparr>)
       \<lparr>req_method = ''POST'', req_body = example_body\<rparr>)) = 500"
  by (simp add: receiver_defs)

text \<open>
  C5, as amended. For every request that carries a well-formed, non-empty batch, if the
  query for the active jobs fails, the receiver answers with status 500 and the message
  of the failure, and inserts no queue item.
\<close>

theorem directory_failure_answered_500:
  assumes "req_method req \<noteq> ''OPTIONS''"
    and "JSON_parse (req_body req) = Inr (JArr events)"
    and "events \<noteq> []"
    and "rdb_jobFetchError db = Some message"
  shows "helius_webhook_receiver JSON_parse db req =
           (\<lparr>resp_status = 500,
             resp_body = JsonError (''Webhook processing failed: '' @
                                    ''Failed to fetch active jobs: '' @ message)\<rparr>, [])"
  using assms by (simp add: helius_webhook_receiver_def receiver_failed_def Let_def)

theorem directory_failure_answered_500_witness:
  "req_method \<lparr>req_method = ''POST'', req_body = example_body\<rparr> \<noteq> ''OPTIONS'' \<and>
   example_parse (req_body \<lparr>req_method = ''POST'', req_body = example_body\<rparr>) =
     Inr (JArr [example_event]) \<and>
   [example_event] \<noteq> [] \<and>
   rdb_jobFetchError (example_db\<lparr>rdb_jobFetchError := Some ''connection refused''\<rparr>) =
     Some ''connection refused'' \<and>
   helius_webhook_receiver example_parse
       (example_db\<lparr>rdb_jobFetchError := Some ''connection refused''\<rparr>)
       \<lparr>req_method = ''POST'', req_body = example_body\<rparr> =
     (\<lparr>resp_status = 500,
       resp_body = JsonError
         ''Webhook processing failed: Failed to fetch active jobs: connection refused''\<rparr>, [])"
  using directory_failure_answered_500[of "\<lparr>req_method = ''POST'', req_body = example_body\<rparr>"
          example_parse "[example_event]"
          "example_db\<lparr>rdb_jobFetchError := Some ''connection refused''\<rparr>" "''connection refused''"]
  by (simp add: receiver_defs)

section \<open>Properties of job management\<close>

lemma addr_add_set [simp]: "set (addr_add xs a) = insert a (set xs)"
  by (auto simp: addr_add_def)

lemma addr_add_distinct: "distinct xs \<Longrightarrow> distinct (addr_add xs a)"
  by (simp add: addr_add_def)

lemma required_address_Some:
  "required_address job = Some a \<longleftrightarrow>
     (\<exists>s. jobMonitoredAddress job = Some (JStr s) \<and> s \<noteq> [] \<and> trim s \<noteq> [] \<and> a = trim s)"
  by (auto simp: required_address_def newJobAddress_def split: option.splits json.splits if_splits)

lemma collect_addresses_set:
  "set (collect_addresses jobs acc) =
     set acc \<union> {a. \<exists>j\<in>set jobs. required_address j = Some a}"
proof (induction jobs arbitrary: acc)
  case Nil
  then show ?case by simp
next
  case (Cons j jobs)
  show ?case
  proof (cases "required_address j")
    case None
    then have "(case jobMonitoredAddress j of
                  Some (JStr address) \<Rightarrow>
                    if address \<noteq> [] \<and> trim address \<noteq> [] then addr_add acc (trim address) else acc
                | _ \<Rightarrow> acc) = acc"
      by (auto simp: required_address_def newJobAddress_def split: option.splits json.splits if_splits)
    with None show ?thesis by (simp add: Cons.IH)
  next
    case (Some a)
    then have "(case jobMonitoredAddress j of
                  Some (JStr address) \<Rightarrow>
                    if address \<noteq> [] \<and> trim address \<noteq> [] then addr_add acc (trim address) else acc
                | _ \<Rightarrow> acc) = addr_add acc a"
      by (auto simp: required_address_def newJobAddress_def split: option.splits json.splits if_splits)
    with Some show ?thesis by (auto simp: Cons.IH)
  qed
qed

lemma collect_addresses_distinct:
  "distinct acc \<Longrightarrow> distinct (collect_addresses jobs acc)"
proof (induction jobs arbitrary: acc)
  case Nil
  then show ?case by simp
next
  case (Cons j jobs)
  then show ?case
    by (auto simp: addr_add_distinct split: option.splits json.splits)
qed

lemma unique_distinct_id_aux:
  "distinct acc \<Longrightarrow> distinct xs \<Longrightarrow> set acc \<inter> set xs = {} \<Longrightarrow> foldl addr_add acc xs = acc @ xs"
proof (induction xs arbitrary: acc)
  case Nil
  then show ?case by simp
next
  case (Cons x xs)
  have "addr_add acc x = acc @ [x]" using Cons.prems by (simp add: addr_add_def)
  moreover have "foldl addr_add (acc @ [x]) xs = (acc @ [x]) @ xs"
    using Cons.prems by (intro Cons.IH) auto
  ultimately show ?case by simp
qed

lemma unique_distinct_id: "distinct xs \<Longrightarrow> unique xs = xs"
  using unique_distinct_id_aux[of "[]" xs] by (simp add: unique_def)

lemma getAllActiveAddresses_ok:
  "getAllActiveAddresses jobs None excl = Inr current \<Longrightarrow>
     distinct current \<and>
     set current = {b. \<exists>j\<in>set jobs. job_status j = ''active'' \<and>
                         (case excl of None \<Rightarrow> True | Some x \<Rightarrow> x = [] \<or> job_id j \<noteq> x) \<and>
                         required_address j = Some b}"
  by (auto simp: getAllActiveAddresses_def collect_addresses_set collect_addresses_distinct)

lemma editPlatformWebhook_configured:
  assumes "HELIUS_API_KEY cfg \<noteq> []" and "PLATFORM_WEBHOOK_ID cfg \<noteq> []"
    and "WEBHOOK_RECEIVER_URL_BASE cfg \<noteq> []" and "distinct addresses"
  shows "pf_calls (snd (editPlatformWebhook cfg reply addresses w)) =
           pf_calls w @ [WebhookEdit addresses (reply = Reply_ok)]"
    and "pf_accountAddresses (snd (editPlatformWebhook cfg reply addresses w)) =
           (if reply = Reply_ok then addresses else pf_accountAddresses w)"
    and "pf_jobs (snd (editPlatformWebhook cfg reply addresses w)) = pf_jobs w"
    and "fst (editPlatformWebhook cfg reply addresses w) = None \<longleftrightarrow> reply = Reply_ok"
  using assms
  by (auto simp: editPlatformWebhook_def unique_distinct_id split: helius_reply.splits)

text \<open>
  C7. A deletion that gets as far as the reconciliation (the job is found, it belongs to
  the caller, its address is read without an error, the query for the other active jobs
  succeeds, the Helius configuration is present) reads the set of addresses required by
  the remaining active jobs, and sends one edit of the webhook, to exactly that list, when
  the deleted job has an address that is not in that set; otherwise it sends none. It
  then deletes the job. So when no remaining active job requires the address and the edit
  succeeds, the address is no longer in the subscription; and when another active job
  requires it, the subscription is not touched and the address stays.
\<close>

theorem delete_reconciliation:
  assumes "HELIUS_API_KEY cfg \<noteq> []" and "PLATFORM_WEBHOOK_ID cfg \<noteq> []"
    and "WEBHOOK_RECEIVER_URL_BASE cfg \<noteq> []"
    and "rid \<noteq> []"
    and "dio_fetchError io = None" and "dio_activeFetchError io = None"
    and "filter (\<lambda>j. job_id j = rid) (pf_jobs w) = [jobToDelete]"
    and "job_user_id jobToDelete = user_id"
    and "deletedJobAddress jobToDelete = Inr address"
  shows "\<exists>remaining.
           getAllActiveAddresses (pf_jobs w) (dio_activeFetchError io) (Some rid) = Inr remaining \<and>
           set remaining = {b. \<exists>j\<in>set (pf_jobs w). job_status j = ''active'' \<and> job_id j \<noteq> rid \<and>
                                 required_address j = Some b} \<and>
           pf_calls (snd (manage_jobs_DELETE cfg io user_id (Some rid) w)) =
             pf_calls w @
             (if \<exists>a. address = Some a \<and> a \<notin> set remaining
              then [WebhookEdit remaining (dio_editReply io = Reply_ok)] else []) @
             [JobDelete rid (dio_deleteError io = None)] \<and>
           pf_accountAddresses (snd (manage_jobs_DELETE cfg io user_id (Some rid) w)) =
             (if (\<exists>a. address = Some a \<and> a \<notin> set remaining) \<and> dio_editReply io = Reply_ok
              then remaining else pf_accountAddresses w) \<and>
           (\<forall>a. address = Some a \<longrightarrow>
              (a \<notin> set remaining \<and> dio_editReply io = Reply_ok \<longrightarrow>
                 a \<notin> set (pf_accountAddresses (snd (manage_jobs_DELETE cfg io user_id (Some rid) w)))) \<and>
              (a \<in> set remaining \<and> a \<in> set (pf_accountAddresses w) \<longrightarrow>
                 a \<in> set (pf_accountAddresses (snd (manage_jobs_DELETE cfg io user_id (Some rid) w)))))"
proof -
  obtain remaining where
    rem: "getAllActiveAddresses (pf_jobs w) (dio_activeFetchError io) (Some rid) = Inr remaining"
    using assms(6) by (simp add: getAllActiveAddresses_def)
  from getAllActiveAddresses_ok[of "pf_jobs w" "Some rid" remaining] rem assms(4,6)
  have d: "distinct remaining"
    and s: "set remaining = {b. \<exists>j\<in>set (pf_jobs w). job_status j = ''active'' \<and> job_id j \<noteq> rid \<and>
                                 required_address j = Some b}"
    by auto
  let ?edit = "\<exists>a. address = Some a \<and> a \<notin> set remaining"
  let ?w1 = "if ?edit then snd (editPlatformWebhook cfg (dio_editReply io) remaining w) else w"
  have cond: "(address \<noteq> None \<and>
               \<not> (case address of None \<Rightarrow> False | Some a \<Rightarrow> a \<in> set remaining)) = ?edit"
    by (cases address) auto
  have dj: "manage_jobs_DELETE cfg io user_id (Some rid) w = delete_job cfg io rid address w"
    using assms(4,5,7,8,9) by (simp add: manage_jobs_DELETE_def)
  have w': "snd (delete_job cfg io rid address w) =
      (case dio_deleteError io of
         Some message \<Rightarrow> ?w1\<lparr>pf_calls := pf_calls ?w1 @ [JobDelete rid False]\<rparr>
       | None \<Rightarrow> ?w1\<lparr>pf_jobs := filter (\<lambda>j. job_id j \<noteq> rid) (pf_jobs ?w1),
                      pf_calls := pf_calls ?w1 @ [JobDelete rid True]\<rparr>)"
    unfolding delete_job_def rem Let_def cond by (simp split: option.splits)
  have calls1: "pf_calls ?w1 = pf_calls w @
      (if ?edit then [WebhookEdit remaining (dio_editReply io = Reply_ok)] else [])"
    using editPlatformWebhook_configured(1)[OF assms(1,2,3) d, of "dio_editReply io" w]
    by (cases ?edit) simp_all
  have addrs1: "pf_accountAddresses ?w1 =
      (if ?edit \<and> dio_editReply io = Reply_ok then remaining else pf_accountAddresses w)"
    using editPlatformWebhook_configured(2)[OF assms(1,2,3) d, of "dio_editReply io" w]
    by (cases ?edit; cases "dio_editReply io = Reply_ok") auto
  have calls: "pf_calls (snd (manage_jobs_DELETE cfg io user_id (Some rid) w)) =
             pf_calls w @
             (if ?edit then [WebhookEdit remaining (dio_editReply io = Reply_ok)] else []) @
             [JobDelete rid (dio_deleteError io = None)]"
    unfolding dj w' using calls1 by (cases "dio_deleteError io") simp_all
  have addrs: "pf_accountAddresses (snd (manage_jobs_DELETE cfg io user_id (Some rid) w)) =
             (if ?edit \<and> dio_editReply io = Reply_ok then remaining else pf_accountAddresses w)"
    unfolding dj w' using addrs1 by (cases "dio_deleteError io") simp_all
  have "\<forall>a. address = Some a \<longrightarrow>
              (a \<notin> set remaining \<and> dio_editReply io = Reply_ok \<longrightarrow>
                 a \<notin> set (pf_accountAddresses (snd (manage_jobs_DELETE cfg io user_id (Some rid) w)))) \<and>
              (a \<in> set remaining \<and> a \<in> set (pf_accountAddresses w) \<longrightarrow>
                 a \<in> set (pf_accountAddresses (snd (manage_jobs_DELETE cfg io user_id (Some rid) w))))"
    unfolding addrs by auto
  with rem s calls addrs show ?thesis by blast
qed

lemma error_status_not_created: "error_status message \<noteq> 201"
  by (simp add: error_status_def)

lemma validate_address_nonempty:
  "validate_address io body cid = Inr request \<Longrightarrow> nj_address request \<noteq> []"
  by (auto simp: validate_address_def newJobAddress_def Let_def
      split: if_splits option.splits json.splits)

lemma validate_POST_nonempty:
  assumes "validate_POST JSON_parse io w user_id resourceId rawBody = Inr request"
  shows "nj_address request \<noteq> []"
proof -
  from assms obtain body cid where "validate_address io body cid = Inr request"
    by (auto simp: validate_POST_def split: if_splits sum.splits option.splits json.splits)
  then show ?thesis by (rule validate_address_nonempty)
qed

text \<open>
  C8. A creation request that passes validation (so its address is a non-empty string),
  with the Helius configuration present and the query for the active jobs succeeding:
  the webhook is edited to the addresses of all active jobs plus the new address, and
  only after that edit has succeeded is the job row inserted; when the edit fails nothing
  is inserted. When the insert fails, one more edit is sent, back to the list read before
  the update; whether or not that edit succeeds, the caller gets the insert's error and
  no job is added.
\<close>

theorem create_ordering_and_rollback:
  assumes "HELIUS_API_KEY cfg \<noteq> []" and "PLATFORM_WEBHOOK_ID cfg \<noteq> []"
    and "WEBHOOK_RECEIVER_URL_BASE cfg \<noteq> []"
    and "validate_POST JSON_parse io w user_id resourceId rawBody = Inr request"
    and "pio_activeFetchError io = None"
  shows "\<exists>current updated savedJob.
           getAllActiveAddresses (pf_jobs w) (pio_activeFetchError io) None = Inr current \<and>
           set current = {b. \<exists>j\<in>set (pf_jobs w). job_status j = ''active'' \<and>
                               required_address j = Some b} \<and>
           nj_address request \<noteq> [] \<and>
           updated = addr_add current (nj_address request) \<and>
           set updated = insert (nj_address request) (set current) \<and>
           savedJob = \<lparr>job_id = pio_new_job_id io, job_user_id = user_id,
                       job_credential_id = nj_credential_id request,
                       job_data_category = nj_data_category request,
                       job_category_params = nj_category_params request,
                       job_target_table_name = nj_target_table_name request,
                       job_status = ''active'', job_error_message = None\<rparr> \<and>
           (pio_editReply io \<noteq> Reply_ok \<longrightarrow>
              pf_calls (snd (manage_jobs_POST JSON_parse cfg io user_id resourceId rawBody w)) =
                pf_calls w @ [WebhookEdit updated False] \<and>
              pf_jobs (snd (manage_jobs_POST JSON_parse cfg io user_id resourceId rawBody w)) =
                pf_jobs w \<and>
              resp_status (fst (manage_jobs_POST JSON_parse cfg io user_id resourceId rawBody w))
                \<noteq> 201) \<and>
           (pio_editReply io = Reply_ok \<and> pio_insertError io = None \<longrightarrow>
              manage_jobs_POST JSON_parse cfg io user_id resourceId rawBody w =
                (\<lparr>resp_status = 201, resp_body = JsonJob savedJob\<rparr>,
                 w\<lparr>pf_jobs := pf_jobs w @ [savedJob],
                   pf_accountAddresses := updated,
                   pf_calls := pf_calls w @ [WebhookEdit updated True, JobInsert savedJob True]\<rparr>)) \<and>
           (\<forall>message. pio_editReply io = Reply_ok \<and> pio_insertError io = Some message \<longrightarrow>
              manage_jobs_POST JSON_parse cfg io user_id resourceId rawBody w =
                (error_response (''Failed to save job to database: '' @ message),
                 w\<lparr>pf_accountAddresses :=
                      (if pio_rollbackReply io = Reply_ok then current else updated),
                   pf_calls := pf_calls w @
                      [WebhookEdit updated True, JobInsert savedJob False,
                       WebhookEdit current (pio_rollbackReply io = Reply_ok)]\<rparr>) \<and>
              resp_status (fst (manage_jobs_POST JSON_parse cfg io user_id resourceId rawBody w))
                \<noteq> 201)"
proof -
  obtain current where
    cur: "getAllActiveAddresses (pf_jobs w) (pio_activeFetchError io) None = Inr current"
    using assms(5) by (simp add: getAllActiveAddresses_def)
  from getAllActiveAddresses_ok[of "pf_jobs w" None current] cur assms(5)
  have d: "distinct current"
    and s: "set current = {b. \<exists>j\<in>set (pf_jobs w). job_status j = ''active'' \<and>
                               required_address j = Some b}"
    by auto
  define updated where "updated = addr_add current (nj_address request)"
  define savedJob where "savedJob =
     \<lparr>job_id = pio_new_job_id io, job_user_id = user_id,
      job_credential_id = nj_credential_id request,
      job_data_category = nj_data_category request,
      job_category_params = nj_category_params request,
      job_target_table_name = nj_target_table_name request,
      job_status = ''active'', job_error_message = None\<rparr>"
  have du: "distinct updated" unfolding updated_def using d by (rule addr_add_distinct)
  have uc: "unique current = current" using d by (rule unique_distinct_id)
  have uu: "unique updated = updated" using du by (rule unique_distinct_id)
  have ne: "nj_address request \<noteq> []" using assms(4) by (rule validate_POST_nonempty)
  have su: "set updated = insert (nj_address request) (set current)"
    by (simp add: updated_def)
  have mj: "manage_jobs_POST JSON_parse cfg io user_id resourceId rawBody w =
              create_job cfg io user_id request w"
    using assms(4) by (simp add: manage_jobs_POST_def)
  note cj = create_job_def editPlatformWebhook_def Let_def cur updated_def[symmetric]
            savedJob_def[symmetric]
  have fail: "pio_editReply io \<noteq> Reply_ok \<longrightarrow>
              pf_calls (snd (create_job cfg io user_id request w)) =
                pf_calls w @ [WebhookEdit updated False] \<and>
              pf_jobs (snd (create_job cfg io user_id request w)) = pf_jobs w \<and>
              resp_status (fst (create_job cfg io user_id request w)) \<noteq> 201"
    using assms(1,2,3)
    by (cases "pio_editReply io")
       (simp_all add: cj uu error_response_def error_status_not_created)
  have ok: "pio_editReply io = Reply_ok \<and> pio_insertError io = None \<longrightarrow>
              create_job cfg io user_id request w =
                (\<lparr>resp_status = 201, resp_body = JsonJob savedJob\<rparr>,
                 w\<lparr>pf_jobs := pf_jobs w @ [savedJob],
                   pf_accountAddresses := updated,
                   pf_calls := pf_calls w @ [WebhookEdit updated True, JobInsert savedJob True]\<rparr>)"
    using assms(1,2,3) by (simp add: cj uu)
  have rb: "\<forall>message. pio_editReply io = Reply_ok \<and> pio_insertError io = Some message \<longrightarrow>
              create_job cfg io user_id request w =
                (error_response (''Failed to save job to database: '' @ message),
                 w\<lparr>pf_accountAddresses :=
                      (if pio_rollbackReply io = Reply_ok then current else updated),
                   pf_calls := pf_calls w @
                      [WebhookEdit updated True, JobInsert savedJob False,
                       WebhookEdit current (pio_rollbackReply io = Reply_ok)]\<rparr>) \<and>
              resp_status (fst (create_job cfg io user_id request w)) \<noteq> 201"
    using assms(1,2,3)
    by (cases "pio_rollbackReply io")
       (simp_all add: cj uu uc error_response_def error_status_not_created)
  show ?thesis
    unfolding mj
    using cur s ne su fail ok rb savedJob_def updated_def by blast
qed

lemmas jobs_defs = manage_jobs_DELETE_def delete_job_def deletedJobAddress_def
  manage_jobs_POST_def validate_POST_def validate_address_def create_job_def newJobAddress_def
  text_of_def getAllActiveAddresses_def editPlatformWebhook_def unique_def addr_add_def
  jobMonitoredAddress_def trim_def is_space_def error_response_def error_status_def
  required_address_def
  early_response_def Let_def
  example_config_def example_platform_def shared_platform_def example_delete_io_def
  example_post_body_def example_post_parse_def example_post_io_def example_new_job_def
  example_mint_job_def example_mint_job_M2_def example_credential_def

theorem delete_reconciliation_witness:
  "HELIUS_API_KEY example_config \<noteq> [] \<and> PLATFORM_WEBHOOK_ID example_config \<noteq> [] \<and>
   WEBHOOK_RECEIVER_URL_BASE example_config \<noteq> [] \<and> ''job-m2'' \<noteq> [] \<and>
   dio_fetchError example_delete_io = None \<and> dio_activeFetchError example_delete_io = None \<and>
   filter (\<lambda>j. job_id j = ''job-m2'') (pf_jobs example_platform) = [example_mint_job_M2] \<and>
   job_user_id example_mint_job_M2 = ''user-2'' \<and>
   deletedJobAddress example_mint_job_M2 = Inr (Some ''M2'') \<and>
   manage_jobs_DELETE example_config example_delete_io ''user-2'' (Some ''job-m2'') example_platform =
     (\<lparr>resp_status = 204, resp_body = NoBody\<rparr>,
      \<lparr>pf_jobs = [example_mint_job], pf_credentials = [example_credential],
       pf_accountAddresses = [''M1''],
       pf_calls = [WebhookEdit [''M1''] True, JobDelete ''job-m2'' True]\<rparr>) \<and>
   manage_jobs_DELETE example_config example_delete_io ''user-2'' (Some ''job-m2'') shared_platform =
     (\<lparr>resp_status = 204, resp_body = NoBody\<rparr>,
      \<lparr>pf_jobs = [example_mint_job], pf_credentials = [example_credential],
       pf_accountAddresses = [''M1''],
       pf_calls = [JobDelete ''job-m2'' True]\<rparr>)"
  using delete_reconciliation[of example_config "''job-m2''" example_delete_io example_platform
          example_mint_job_M2 "''user-2''" "Some ''M2''"]
  by (simp add: jobs_defs)

theorem create_ordering_and_rollback_witness:
  "HELIUS_API_KEY example_config \<noteq> [] \<and> PLATFORM_WEBHOOK_ID example_config \<noteq> [] \<and>
   WEBHOOK_RECEIVER_URL_BASE example_config \<noteq> [] \<and>
   validate_POST example_post_parse example_post_io example_platform ''user-1'' None
       example_post_body =
     Inr \<lparr>nj_credential_id = ''cred-1'', nj_data_category = ''MINT_ACTIVITY'',
          nj_category_params = JObj [(''mintAddress'', JStr '' M3 '')],
          nj_target_table_name = ''helius_mint_activity'', nj_address = ''M3''\<rparr> \<and>
   pio_activeFetchError example_post_io = None \<and>
   pio_editReply example_post_io = Reply_ok \<and>
   pio_insertError example_post_io = Some ''connection lost'' \<and>
   manage_jobs_POST example_post_parse example_config example_post_io ''user-1'' None
       example_post_body example_platform =
     (\<lparr>resp_status = 500,
       resp_body = JsonError ''Failed to save job to database: connection lost''\<rparr>,
      example_platform\<lparr>pf_calls :=
        [WebhookEdit [''M1'', ''M2'', ''M3''] True, JobInsert example_new_job False,
         WebhookEdit [''M1'', ''M2''] True]\<rparr>) \<and>
   manage_jobs_POST example_post_parse example_config
       (example_post_io\<lparr>pio_insertError := None\<rparr>) ''user-1'' None
       example_post_body example_platform =
     (\<lparr>resp_status = 201, resp_body = JsonJob example_new_job\<rparr>,
      \<lparr>pf_jobs = [example_mint_job, example_mint_job_M2, example_new_job],
       pf_credentials = [example_credential],
       pf_accountAddresses = [''M1'', ''M2'', ''M3''],
       pf_calls = [WebhookEdit [''M1'', ''M2'', ''M3''] True, JobInsert example_new_job True]\<rparr>)"
  using create_ordering_and_rollback[of example_config example_post_parse example_post_io
          example_platform "''user-1''" None example_post_body
          "\<lparr>nj_credential_id = ''cred-1'', nj_data_category = ''MINT_ACTIVITY'',
            nj_category_params = JObj [(''mintAddress'', JStr '' M3 '')],
            nj_target_table_name = ''helius_mint_activity'', nj_address = ''M3''\<rparr>"]
  by (simp add: jobs_defs)

section \<open>Properties of concurrent claims\<close>

lemma claim_inv_initial:
  "distinct (map wq_id tbl) \<Longrightarrow> claim_inv (concurrent_calls n tbl)"
  by (auto simp: claim_inv_def concurrent_calls_def)

lemma update_returning_snd_status:
  assumes "x \<in> set (snd (update_returning now k tbl))" and "wq_id x = k"
  shows "wq_status x = ''processing''"
proof -
  from assms(1) obtain y where "y \<in> set tbl"
    and x: "x = (if wq_id y = k then set_processing now y else y)"
    by (auto simp: update_returning_def Let_def)
  show ?thesis
  proof (cases "wq_id y = k")
    case True
    with x show ?thesis by (simp add: set_processing_def)
  next
    case False
    with x assms(2) show ?thesis by simp
  qed
qed

lemma update_returning_fst_length:
  "distinct (map wq_id tbl) \<Longrightarrow> length (fst (update_returning now k tbl)) \<le> 1"
proof -
  assume d: "distinct (map wq_id tbl)"
  have "fst (update_returning now k tbl) =
        map (set_processing now) (filter (\<lambda>x. wq_id x = k) tbl)"
    by (induction tbl) (auto simp: update_returning_def Let_def)
  moreover have "length (filter (\<lambda>x. wq_id x = k) tbl) \<le> 1"
  proof (cases "\<exists>r\<in>set tbl. wq_id r = k")
    case True
    then obtain r where "r \<in> set tbl" "wq_id r = k" by blast
    with filter_key_singleton[OF d, of r] show ?thesis by auto
  next
    case False
    then have "filter (\<lambda>x. wq_id x = k) tbl = []" by (auto simp: filter_empty_conv)
    then show ?thesis by simp
  qed
  ultimately show ?thesis by simp
qed

lemma call_step_started_none:
  assumes "claim_inv s" and "c < length (cs_calls s)"
  shows "claim_inv (s\<lparr>cs_calls := (cs_calls s)[c := Returned []]\<rparr>)"
  using assms unfolding claim_inv_def
  by (auto simp: nth_list_update)

lemma call_step_started_some:
  assumes inv: "claim_inv s" and c: "c < length (cs_calls s)"
    and sel: "select_for_update_skip_locked (cs_locks s) m (cs_table s) = Some k"
  shows "claim_inv (s\<lparr>cs_locks := insert k (cs_locks s),
                      cs_calls := (cs_calls s)[c := Locked k]\<rparr>)"
proof -
  from select_Some_oldest[OF sel] obtain r where
    r: "r \<in> set (cs_table s)" "wq_id r = k" "claimable m r" "k \<notin> cs_locks s" by blast
  then have pending: "\<exists>r\<in>set (cs_table s). wq_id r = k \<and> wq_status r = ''pending''"
    by (auto simp: claimable_def)
  have nobody: "\<And>d. d < length (cs_calls s) \<Longrightarrow> cs_calls s ! d \<noteq> Locked k"
    using inv r(4) unfolding claim_inv_def by blast
  show ?thesis
    using inv pending nobody c unfolding claim_inv_def
    by (auto simp: nth_list_update)
qed

lemma call_step_locked:
  assumes inv: "claim_inv s" and c: "c < length (cs_calls s)"
    and lk: "cs_calls s ! c = Locked k"
  shows "claim_inv (s\<lparr>cs_table := snd (update_returning now k (cs_table s)),
                      cs_locks := cs_locks s - {k},
                      cs_calls := (cs_calls s)[c := Returned
                                    (fst (update_returning now k (cs_table s)))]\<rparr>)"
proof -
  let ?tbl = "cs_table s" and ?calls = "cs_calls s"
  let ?tbl' = "snd (update_returning now k ?tbl)"
  let ?rows = "fst (update_returning now k ?tbl)"
  let ?calls' = "?calls[c := Returned ?rows]"
  from inv have I1: "distinct (map wq_id ?tbl)"
    and I2: "\<And>d i. d < length ?calls \<Longrightarrow> ?calls ! d = Locked i \<Longrightarrow>
               i \<in> cs_locks s \<and> (\<exists>r\<in>set ?tbl. wq_id r = i \<and> wq_status r = ''pending'')"
    and I3: "\<And>d e i. d < length ?calls \<Longrightarrow> e < length ?calls \<Longrightarrow> d \<noteq> e \<Longrightarrow>
               ?calls ! d = Locked i \<Longrightarrow> ?calls ! e \<noteq> Locked i"
    and I4: "\<And>d rows. d < length ?calls \<Longrightarrow> ?calls ! d = Returned rows \<Longrightarrow>
               length rows \<le> 1 \<and>
               (\<forall>r\<in>set rows. \<forall>x\<in>set ?tbl. wq_id x = wq_id r \<longrightarrow> wq_status x \<noteq> ''pending'')"
    and I5: "\<And>d e rows rows'. d < length ?calls \<Longrightarrow> e < length ?calls \<Longrightarrow> d \<noteq> e \<Longrightarrow>
               ?calls ! d = Returned rows \<Longrightarrow> ?calls ! e = Returned rows' \<Longrightarrow>
               wq_id ` set rows \<inter> wq_id ` set rows' = {}"
    unfolding claim_inv_def by blast+
  from I2[OF c lk] obtain r0 where r0: "r0 \<in> set ?tbl" "wq_id r0 = k" "wq_status r0 = ''pending''"
    by blast
  have nth': "\<And>d. d < length ?calls \<Longrightarrow> ?calls' ! d = (if d = c then Returned ?rows else ?calls ! d)"
    by (simp add: nth_list_update)
  have rows_id: "\<And>y. y \<in> set ?rows \<Longrightarrow> wq_id y = k"
    by (rule update_returning_fst_id)
  have J1: "distinct (map wq_id ?tbl')" using I1 by (simp add: update_returning_ids)
  have J2: "\<forall>d i. d < length ?calls' \<and> ?calls' ! d = Locked i \<longrightarrow>
              i \<in> cs_locks s - {k} \<and> (\<exists>r\<in>set ?tbl'. wq_id r = i \<and> wq_status r = ''pending'')"
  proof (intro allI impI)
    fix d i assume a: "d < length ?calls' \<and> ?calls' ! d = Locked i"
    then have d: "d < length ?calls" by simp
    with a nth' have dc: "d \<noteq> c" and old: "?calls ! d = Locked i" by (auto split: if_splits)
    from I3[OF d c dc old] lk have ik: "i \<noteq> k" by auto
    from I2[OF d old] obtain r where r: "i \<in> cs_locks s" "r \<in> set ?tbl" "wq_id r = i"
        "wq_status r = ''pending''" by blast
    from r(2,3) ik have "r \<in> set ?tbl'" by (simp add: update_returning_other)
    with r ik show "i \<in> cs_locks s - {k} \<and> (\<exists>r\<in>set ?tbl'. wq_id r = i \<and> wq_status r = ''pending'')"
      by blast
  qed
  have J3: "\<forall>d e i. d < length ?calls' \<and> e < length ?calls' \<and> d \<noteq> e \<and>
              ?calls' ! d = Locked i \<longrightarrow> ?calls' ! e \<noteq> Locked i"
  proof (intro allI impI)
    fix d e i
    assume a: "d < length ?calls' \<and> e < length ?calls' \<and> d \<noteq> e \<and> ?calls' ! d = Locked i"
    then have d: "d < length ?calls" and e: "e < length ?calls" and de: "d \<noteq> e" by simp_all
    from a nth'[OF d] have dc: "d \<noteq> c" and old: "?calls ! d = Locked i" by (auto split: if_splits)
    show "?calls' ! e \<noteq> Locked i"
    proof (cases "e = c")
      case True
      then show ?thesis using nth'[OF e] by simp
    next
      case False
      then show ?thesis using nth'[OF e] I3[OF d e de old] by simp
    qed
  qed
  have notpending': "\<And>x rows d. d < length ?calls \<Longrightarrow> ?calls ! d = Returned rows \<Longrightarrow>
       x \<in> set ?tbl' \<Longrightarrow> (\<exists>r\<in>set rows. wq_id x = wq_id r) \<Longrightarrow> wq_status x \<noteq> ''pending''"
  proof -
    fix x rows d
    assume d: "d < length ?calls" and old: "?calls ! d = Returned rows"
      and x: "x \<in> set ?tbl'" and ex: "\<exists>r\<in>set rows. wq_id x = wq_id r"
    show "wq_status x \<noteq> ''pending''"
    proof (cases "wq_id x = k")
      case True
      with x have "wq_status x = ''processing''" by (rule update_returning_snd_status)
      then show ?thesis by simp
    next
      case False
      with x have "x \<in> set ?tbl" by (rule update_returning_snd_mem)
      with I4[OF d old] ex show ?thesis by blast
    qed
  qed
  have J4: "\<forall>d rows. d < length ?calls' \<and> ?calls' ! d = Returned rows \<longrightarrow>
              length rows \<le> 1 \<and>
              (\<forall>r\<in>set rows. \<forall>x\<in>set ?tbl'. wq_id x = wq_id r \<longrightarrow> wq_status x \<noteq> ''pending'')"
  proof (intro allI impI)
    fix d rows assume a: "d < length ?calls' \<and> ?calls' ! d = Returned rows"
    then have d: "d < length ?calls" by simp
    show "length rows \<le> 1 \<and>
          (\<forall>r\<in>set rows. \<forall>x\<in>set ?tbl'. wq_id x = wq_id r \<longrightarrow> wq_status x \<noteq> ''pending'')"
    proof (cases "d = c")
      case True
      with a nth'[OF d] have rows: "rows = ?rows" by simp
      have len: "length rows \<le> 1"
        unfolding rows using I1 by (rule update_returning_fst_length)
      have "\<forall>r\<in>set rows. \<forall>x\<in>set ?tbl'. wq_id x = wq_id r \<longrightarrow> wq_status x \<noteq> ''pending''"
      proof (intro ballI impI)
        fix r x assume "r \<in> set rows" "x \<in> set ?tbl'" "wq_id x = wq_id r"
        with rows rows_id have "wq_id x = k" by simp
        with \<open>x \<in> set ?tbl'\<close> have "wq_status x = ''processing''"
          by (rule update_returning_snd_status)
        then show "wq_status x \<noteq> ''pending''" by simp
      qed
      with len show ?thesis by simp
    next
      case False
      with a nth'[OF d] have old: "?calls ! d = Returned rows" by simp
      from I4[OF d old] have "length rows \<le> 1" by simp
      moreover have "\<forall>r\<in>set rows. \<forall>x\<in>set ?tbl'. wq_id x = wq_id r \<longrightarrow> wq_status x \<noteq> ''pending''"
        using notpending'[OF d old] by blast
      ultimately show ?thesis by simp
    qed
  qed
  have fresh: "\<And>d rows. d < length ?calls \<Longrightarrow> ?calls ! d = Returned rows \<Longrightarrow>
                 k \<notin> wq_id ` set rows"
  proof
    fix d rows assume d: "d < length ?calls" and old: "?calls ! d = Returned rows"
      and "k \<in> wq_id ` set rows"
    then obtain r where "r \<in> set rows" "wq_id r = k" by auto
    with I4[OF d old] r0 show False by auto
  qed
  have rows_k: "wq_id ` set ?rows \<subseteq> {k}" using rows_id by auto
  have J5: "\<forall>d e rows rows'. d < length ?calls' \<and> e < length ?calls' \<and> d \<noteq> e \<and>
              ?calls' ! d = Returned rows \<and> ?calls' ! e = Returned rows' \<longrightarrow>
              wq_id ` set rows \<inter> wq_id ` set rows' = {}"
  proof (intro allI impI)
    fix d e rows rows'
    assume a: "d < length ?calls' \<and> e < length ?calls' \<and> d \<noteq> e \<and>
               ?calls' ! d = Returned rows \<and> ?calls' ! e = Returned rows'"
    then have d: "d < length ?calls" and e: "e < length ?calls" and de: "d \<noteq> e" by simp_all
    show "wq_id ` set rows \<inter> wq_id ` set rows' = {}"
    proof (cases "d = c")
      case True
      with a nth'[OF d] have rows: "rows = ?rows" by simp
      from True de a nth'[OF e] have old: "?calls ! e = Returned rows'" by auto
      from fresh[OF e old] rows_k rows show ?thesis by auto
    next
      case dc: False
      with a nth'[OF d] have oldd: "?calls ! d = Returned rows" by simp
      show ?thesis
      proof (cases "e = c")
        case True
        with a nth'[OF e] have rows': "rows' = ?rows" by simp
        from fresh[OF d oldd] rows_k rows' show ?thesis by auto
      next
        case False
        with a nth'[OF e] have olde: "?calls ! e = Returned rows'" by simp
        from I5[OF d e de oldd olde] show ?thesis .
      qed
    qed
  qed
  show ?thesis
    unfolding claim_inv_def using J1 J2 J3 J4 J5 by simp
qed

lemma call_step_inv:
  assumes "claim_inv s"
  shows "claim_inv (call_step c m now s)"
proof (cases "length (cs_calls s) \<le> c")
  case True
  with assms show ?thesis by (simp add: call_step_def)
next
  case False
  then have c: "c < length (cs_calls s)" by simp
  show ?thesis
  proof (cases "cs_calls s ! c")
    case Started
    show ?thesis
    proof (cases "select_for_update_skip_locked (cs_locks s) m (cs_table s)")
      case None
      with Started c call_step_started_none[OF assms c] show ?thesis
        by (simp add: call_step_def)
    next
      case (Some k)
      with Started c call_step_started_some[OF assms c Some] show ?thesis
        by (simp add: call_step_def)
    qed
  next
    case (Locked k)
    with c call_step_locked[OF assms c Locked, of now] show ?thesis
      by (simp add: call_step_def)
  next
    case (Returned rows)
    with c assms show ?thesis by (simp add: call_step_def)
  qed
qed

lemma run_schedule_inv:
  "claim_inv s \<Longrightarrow> claim_inv (run_schedule schedule s)"
proof (induction schedule arbitrary: s)
  case Nil
  then show ?case by simp
next
  case (Cons a schedule)
  obtain c m now where a: "a = (c, m, now)" by (cases a)
  from Cons.prems have "claim_inv (call_step c m now s)" by (rule call_step_inv)
  then show ?case unfolding a by (simp add: Cons.IH)
qed

lemma run_schedule_length:
  "length (cs_calls (run_schedule schedule s)) = length (cs_calls s)"
proof (induction schedule arbitrary: s)
  case Nil
  then show ?case by simp
next
  case (Cons a schedule)
  obtain c m now where a: "a = (c, m, now)" by (cases a)
  have "length (cs_calls (call_step c m now s)) = length (cs_calls s)"
    by (simp add: call_step_def split: call_state.splits option.splits)
  then show ?case unfolding a by (simp add: Cons.IH)
qed

lemma distinct_concat_nth:
  assumes "\<forall>i<length xss. distinct (xss ! i)"
    and "\<forall>i j. i < length xss \<and> j < length xss \<and> i \<noteq> j \<longrightarrow> set (xss ! i) \<inter> set (xss ! j) = {}"
  shows "distinct (concat xss)"
  using assms
proof (induction xss)
  case Nil
  then show ?case by simp
next
  case (Cons xs xss)
  have d0: "distinct xs" using Cons.prems(1) by auto
  have tail1: "\<forall>i<length xss. distinct (xss ! i)"
  proof (intro allI impI)
    fix i assume "i < length xss"
    then have "Suc i < length (xs # xss)" by simp
    with Cons.prems(1) have "distinct ((xs # xss) ! Suc i)" by blast
    then show "distinct (xss ! i)" by simp
  qed
  have tail2: "\<forall>i j. i < length xss \<and> j < length xss \<and> i \<noteq> j \<longrightarrow>
                 set (xss ! i) \<inter> set (xss ! j) = {}"
  proof (intro allI impI)
    fix i j assume a: "i < length xss \<and> j < length xss \<and> i \<noteq> j"
    then have "Suc i < length (xs # xss) \<and> Suc j < length (xs # xss) \<and> Suc i \<noteq> Suc j" by simp
    with Cons.prems(2) have "set ((xs # xss) ! Suc i) \<inter> set ((xs # xss) ! Suc j) = {}" by blast
    then show "set (xss ! i) \<inter> set (xss ! j) = {}" by simp
  qed
  have head: "\<forall>ys\<in>set xss. set xs \<inter> set ys = {}"
  proof
    fix ys assume "ys \<in> set xss"
    then obtain j where j: "j < length xss" "xss ! j = ys" by (auto simp: in_set_conv_nth)
    then have "0 < length (xs # xss) \<and> Suc j < length (xs # xss) \<and> 0 \<noteq> Suc j" by simp
    with Cons.prems(2) have "set ((xs # xss) ! 0) \<inter> set ((xs # xss) ! Suc j) = {}" by blast
    with j show "set xs \<inter> set ys = {}" by simp
  qed
  from Cons.IH[OF tail1 tail2] d0 head show ?case by auto
qed

text \<open>
  C1. Any number \<open>n\<close> of calls of the claim primitive race against one queue whose ids are
  distinct, their statements interleaved in any order, each call with its own
  \<open>max_attempts\<close>. Whatever the schedule, and at every point of it: no two calls have been
  returned a row with the same id, a call has been returned at most one row, and the ids
  of all rows returned to all callers, taken together, contain no duplicate.
\<close>

theorem claims_are_exclusive:
  assumes "distinct (map wq_id tbl)"
  shows "(\<forall>c d. c < n \<and> d < n \<and> c \<noteq> d \<longrightarrow>
            wq_id ` set (returned_rows (cs_calls (run_schedule schedule (concurrent_calls n tbl)) ! c)) \<inter>
            wq_id ` set (returned_rows (cs_calls (run_schedule schedule (concurrent_calls n tbl)) ! d)) = {}) \<and>
         (\<forall>c. c < n \<longrightarrow>
            length (returned_rows (cs_calls (run_schedule schedule (concurrent_calls n tbl)) ! c)) \<le> 1) \<and>
         distinct (concat (map (\<lambda>call. map wq_id (returned_rows call))
                     (cs_calls (run_schedule schedule (concurrent_calls n tbl)))))"
proof -
  let ?s = "run_schedule schedule (concurrent_calls n tbl)"
  have inv: "claim_inv ?s"
    using assms by (intro run_schedule_inv claim_inv_initial)
  have len: "length (cs_calls ?s) = n"
    by (simp add: run_schedule_length concurrent_calls_def)
  have one: "\<And>c. c < n \<Longrightarrow> length (returned_rows (cs_calls ?s ! c)) \<le> 1"
  proof -
    fix c assume c: "c < n"
    show "length (returned_rows (cs_calls ?s ! c)) \<le> 1"
    proof (cases "cs_calls ?s ! c")
      case (Returned rows)
      with inv c len show ?thesis unfolding claim_inv_def by auto
    qed simp_all
  qed
  have disj: "\<And>c d. c < n \<Longrightarrow> d < n \<Longrightarrow> c \<noteq> d \<Longrightarrow>
      wq_id ` set (returned_rows (cs_calls ?s ! c)) \<inter>
      wq_id ` set (returned_rows (cs_calls ?s ! d)) = {}"
  proof -
    fix c d assume cd: "c < n" "d < n" "c \<noteq> d"
    show "wq_id ` set (returned_rows (cs_calls ?s ! c)) \<inter>
          wq_id ` set (returned_rows (cs_calls ?s ! d)) = {}"
    proof (cases "cs_calls ?s ! c")
      case rc: (Returned rows)
      show ?thesis
      proof (cases "cs_calls ?s ! d")
        case rd: (Returned rows')
        from inv have I5: "\<And>a b ra rb. a < length (cs_calls ?s) \<Longrightarrow> b < length (cs_calls ?s) \<Longrightarrow>
              a \<noteq> b \<Longrightarrow> cs_calls ?s ! a = Returned ra \<Longrightarrow> cs_calls ?s ! b = Returned rb \<Longrightarrow>
              wq_id ` set ra \<inter> wq_id ` set rb = {}"
          unfolding claim_inv_def by blast
        have "wq_id ` set rows \<inter> wq_id ` set rows' = {}"
          using cd len rc rd by (intro I5[of c d rows rows']) simp_all
        with rc rd show ?thesis by simp
      qed (simp_all add: rc)
    qed simp_all
  qed
  have "distinct (concat (map (\<lambda>call. map wq_id (returned_rows call)) (cs_calls ?s)))"
  proof (rule distinct_concat_nth)
    show "\<forall>i<length (map (\<lambda>call. map wq_id (returned_rows call)) (cs_calls ?s)).
            distinct (map (\<lambda>call. map wq_id (returned_rows call)) (cs_calls ?s) ! i)"
    proof (intro allI impI)
      fix i assume "i < length (map (\<lambda>call. map wq_id (returned_rows call)) (cs_calls ?s))"
      then have i: "i < n" using len by simp
      from one[OF i] have "length (map wq_id (returned_rows (cs_calls ?s ! i))) \<le> 1" by simp
      then have "distinct (map wq_id (returned_rows (cs_calls ?s ! i)))"
        by (cases "returned_rows (cs_calls ?s ! i)") auto
      with i len show "distinct (map (\<lambda>call. map wq_id (returned_rows call)) (cs_calls ?s) ! i)"
        by simp
    qed
    show "\<forall>i j. i < length (map (\<lambda>call. map wq_id (returned_rows call)) (cs_calls ?s)) \<and>
                 j < length (map (\<lambda>call. map wq_id (returned_rows call)) (cs_calls ?s)) \<and> i \<noteq> j \<longrightarrow>
            set (map (\<lambda>call. map wq_id (returned_rows call)) (cs_calls ?s) ! i) \<inter>
            set (map (\<lambda>call. map wq_id (returned_rows call)) (cs_calls ?s) ! j) = {}"
    proof (intro allI impI)
      fix i j
      assume a: "i < length (map (\<lambda>call. map wq_id (returned_rows call)) (cs_calls ?s)) \<and>
                 j < length (map (\<lambda>call. map wq_id (returned_rows call)) (cs_calls ?s)) \<and> i \<noteq> j"
      then have ij: "i < n" "j < n" "i \<noteq> j" using len by simp_all
      from disj[OF ij] ij len
      show "set (map (\<lambda>call. map wq_id (returned_rows call)) (cs_calls ?s) ! i) \<inter>
            set (map (\<lambda>call. map wq_id (returned_rows call)) (cs_calls ?s) ! j) = {}"
        by simp
    qed
  qed
  with one disj show ?thesis by blast
qed

theorem claims_are_exclusive_witness:
  "distinct (map wq_id example_queue) \<and>
   map (\<lambda>call. map wq_id (returned_rows call))
     (cs_calls (run_schedule [(0, 3, 100), (1, 3, 101), (1, 3, 102), (0, 3, 103)]
                  (concurrent_calls 2 example_queue))) = [[3], [1]] \<and>
   distinct (concat (map (\<lambda>call. map wq_id (returned_rows call))
     (cs_calls (run_schedule [(0, 3, 100), (1, 3, 101), (1, 3, 102), (0, 3, 103)]
                  (concurrent_calls 2 example_queue)))))"
  using claims_are_exclusive[of example_queue 2
          "[(0, 3, 100), (1, 3, 101), (1, 3, 102), (0, 3, 103)]"]
  by (simp add: example_queue_def concurrent_calls_def call_step_def
      select_for_update_skip_locked_def claimable_def update_returning_def set_processing_def
      Let_def numeral_2_eq_2)

end
